theory Spec2Isabelle
  imports Complex_Main
begin

section \<open>Overlay panels of the player (src/components/Player.tsx)\<close>

text \<open>
  The two side panels of \<^verbatim>\<open>VideoPlayer\<close> are two independent React state cells,
  \<^verbatim>\<open>showSettingsPanel\<close> and \<^verbatim>\<open>showSubtitlesPanel\<close>, both created with
  \<^verbatim>\<open>useState(false)\<close>. Four callbacks write them: the two button handlers handed to
  \<^verbatim>\<open>Controls\<close> and the two \<^verbatim>\<open>onClose\<close> handlers handed to the panels.
\<close>

record panels =
  showSettingsPanel :: bool
  showSubtitlesPanel :: bool

definition panels_init :: panels where
  "panels_init = \<lparr> showSettingsPanel = False, showSubtitlesPanel = False \<rparr>"

text \<open>\<^verbatim>\<open>onSettingsClick={() => { setShowSettingsPanel(p => !p); setShowSubtitlesPanel(false); }}\<close>\<close>

definition onSettingsClick :: "panels \<Rightarrow> panels" where
  "onSettingsClick s =
     s\<lparr> showSettingsPanel := \<not> showSettingsPanel s, showSubtitlesPanel := False \<rparr>"

text \<open>\<^verbatim>\<open>onSubtitlesClick={() => { setShowSubtitlesPanel(p => !p); setShowSettingsPanel(false); }}\<close>\<close>

definition onSubtitlesClick :: "panels \<Rightarrow> panels" where
  "onSubtitlesClick s =
     s\<lparr> showSubtitlesPanel := \<not> showSubtitlesPanel s, showSettingsPanel := False \<rparr>"

text \<open>\<^verbatim>\<open>onClose={() => setShowSettingsPanel(false)}\<close> of \<^verbatim>\<open>SettingsPanel\<close>.\<close>

definition closeSettingsPanel :: "panels \<Rightarrow> panels" where
  "closeSettingsPanel s = s\<lparr> showSettingsPanel := False \<rparr>"

text \<open>\<^verbatim>\<open>onClose={() => setShowSubtitlesPanel(false)}\<close> of \<^verbatim>\<open>SubtitlesPanel\<close>.\<close>

definition closeSubtitlesPanel :: "panels \<Rightarrow> panels" where
  "closeSubtitlesPanel s = s\<lparr> showSubtitlesPanel := False \<rparr>"

datatype panel_cmd = SettingsClick | SubtitlesClick | CloseSettings | CloseSubtitles

fun panel_step :: "panels \<Rightarrow> panel_cmd \<Rightarrow> panels" where
  "panel_step s SettingsClick = onSettingsClick s"
| "panel_step s SubtitlesClick = onSubtitlesClick s"
| "panel_step s CloseSettings = closeSettingsPanel s"
| "panel_step s CloseSubtitles = closeSubtitlesPanel s"

definition panel_run :: "panel_cmd list \<Rightarrow> panels" where
  "panel_run cmds = foldl panel_step panels_init cmds"

definition both_open :: "panels \<Rightarrow> bool" where
  "both_open s = (showSettingsPanel s \<and> showSubtitlesPanel s)"

section \<open>Keyboard handling of the application shell (src/App.tsx)\<close>

text \<open>
  \<^verbatim>\<open>e.key\<close> is a string; the handler distinguishes \<^verbatim>\<open>'Enter'\<close> and the four arrow
  keys, every other key takes the same paths.
\<close>

datatype key = Enter | ArrowUp | ArrowDown | ArrowLeft | ArrowRight | OtherKey string

definition isArrow :: "key \<Rightarrow> bool" where
  "isArrow k = (k = ArrowUp \<or> k = ArrowDown \<or> k = ArrowLeft \<or> k = ArrowRight)"

text \<open>
  A \<^verbatim>\<open>DOMRect\<close> as returned by \<^verbatim>\<open>getBoundingClientRect()\<close>. Coordinates are JavaScript
  numbers; the model computes with exact rationals (all operations of the handler are
  addition, subtraction, halving, doubling and comparison).
\<close>

record rect =
  rect_left :: rat
  rect_top :: rat
  rect_width :: rat
  rect_height :: rat

text \<open>
  What the handler reads of a DOM element: its identity (\<^verbatim>\<open>===\<close>), whether it carries the
  class \<^verbatim>\<open>focusable\<close>, the \<^verbatim>\<open>disabled\<close> attribute, two computed style properties and
  its bounding rectangle.
\<close>

record element =
  el_id :: nat
  focusable :: bool
  disabled :: bool
  visibility_hidden :: bool
  display_none :: bool
  bounding :: rect

text \<open>
  The result of \<^verbatim>\<open>document.elementFromPoint\<close>: the handler clicks it only when it is an
  \<^verbatim>\<open>HTMLElement\<close>.
\<close>

datatype hit = HTMLElementAt nat | OtherElementAt nat

text \<open>
  A snapshot of the document at the time of one key press: the focused element, the
  descendants of \<^verbatim>\<open>.details-modal-content\<close> in document order when such a modal
  exists, the elements of the document in document order, and the hit test.
\<close>

record dom =
  activeElement :: "element option"
  modalElement :: "element list option"
  documentElements :: "element list"
  elementFromPoint :: "rat \<Rightarrow> rat \<Rightarrow> hit option"

text \<open>
  The React state of \<^verbatim>\<open>App\<close>. \<^verbatim>\<open>enterPressTimeout\<close> is the pending timer that resets the
  press counter: \<open>Some d\<close> when it fires in \<open>d\<close> milliseconds, \<open>None\<close> when none is
  pending (never started, cleared or already fired). The timers started for the click
  effect are never cleared, so several can be pending.
\<close>

record app_state =
  enterPressCount :: nat
  showTvCursor :: bool
  enterPressTimeout :: "nat option"
  cursorPosition :: "rat \<times> rat"
  clickEffect :: bool
  clickEffectTimeouts :: "nat list"

text \<open>What one key press does to the outside: in the order of the calls.\<close>

datatype effect = PreventDefault | Click nat | Focus nat | ScrollIntoView nat

subsection \<open>Spatial navigation\<close>

definition center_x :: "rect \<Rightarrow> rat" where
  "center_x r = rect_left r + rect_width r / 2"

definition center_y :: "rect \<Rightarrow> rat" where
  "center_y r = rect_top r + rect_height r / 2"

text \<open>
  \<^verbatim>\<open>minDistance\<close> starts as \<^verbatim>\<open>Infinity\<close>, written \<open>None\<close>; every distance computed
  from rectangles is below it.
\<close>

definition below_min :: "rat \<Rightarrow> rat option \<Rightarrow> bool" where
  "below_min distance minDistance =
     (case minDistance of None \<Rightarrow> True | Some m \<Rightarrow> distance < m)"

text \<open>One iteration of \<^verbatim>\<open>for (const candidate of focusables)\<close>.\<close>

definition nav_step ::
  "key \<Rightarrow> element \<Rightarrow> element option \<times> rat option \<Rightarrow> element \<Rightarrow> element option \<times> rat option"
where
  "nav_step k currentElement acc candidate =
     (if el_id candidate = el_id currentElement then acc
      else
        let dx = center_x (bounding candidate) - center_x (bounding currentElement);
            dy = center_y (bounding candidate) - center_y (bounding currentElement)
        in case k of
             ArrowRight \<Rightarrow>
               if dx > 0 then
                 (let distance = \<bar>dy\<bar> * 2 + dx
                  in if below_min distance (snd acc) then (Some candidate, Some distance) else acc)
               else acc
           | ArrowLeft \<Rightarrow>
               if dx < 0 then
                 (let distance = \<bar>dy\<bar> * 2 + \<bar>dx\<bar>
                  in if below_min distance (snd acc) then (Some candidate, Some distance) else acc)
               else acc
           | ArrowDown \<Rightarrow>
               if dy > 0 then
                 (let distance = \<bar>dx\<bar> * 2 + dy
                  in if below_min distance (snd acc) then (Some candidate, Some distance) else acc)
               else acc
           | ArrowUp \<Rightarrow>
               if dy < 0 then
                 (let distance = \<bar>dx\<bar> * 2 + \<bar>dy\<bar>
                  in if below_min distance (snd acc) then (Some candidate, Some distance) else acc)
               else acc
           | _ \<Rightarrow> acc)"

definition navigationScope :: "dom \<Rightarrow> element list" where
  "navigationScope d = (case modalElement d of Some m \<Rightarrow> m | None \<Rightarrow> documentElements d)"

text \<open>
  \<^verbatim>\<open>querySelectorAll('.focusable:not([disabled])')\<close> filtered by visibility and size.
\<close>

definition focusables :: "dom \<Rightarrow> element list" where
  "focusables d =
     filter (\<lambda>el. \<not> visibility_hidden el \<and> \<not> display_none el
                  \<and> rect_width (bounding el) > 0 \<and> rect_height (bounding el) > 0)
       (filter (\<lambda>el. focusable el \<and> \<not> disabled el) (navigationScope d))"

definition focus_and_scroll :: "element option \<Rightarrow> effect list" where
  "focus_and_scroll target =
     (case target of None \<Rightarrow> [] | Some el \<Rightarrow> [Focus (el_id el), ScrollIntoView (el_id el)])"

text \<open>The part of the handler below the comment \<^verbatim>\<open>Spatial Navigation Logic\<close>.\<close>

definition spatialNavigation :: "dom \<Rightarrow> key \<Rightarrow> effect list" where
  "spatialNavigation d k =
     (if \<not> isArrow k then []
      else PreventDefault #
        (case activeElement d of
           None \<Rightarrow> focus_and_scroll (find focusable (navigationScope d))
         | Some currentElement \<Rightarrow>
             if \<not> focusable currentElement
             then focus_and_scroll (find focusable (navigationScope d))
             else focus_and_scroll
                    (fst (foldl (nav_step k currentElement) (None, None) (focusables d)))))"

subsection \<open>The key handler\<close>

text \<open>
  The first block of \<^verbatim>\<open>handleKeyDown\<close>: every \<^verbatim>\<open>Enter\<close> clears the pending timer and
  counts; the third one shows the cursor and resets the counter, any other one starts the
  500 ms timer.
\<close>

definition countEnter :: "key \<Rightarrow> app_state \<Rightarrow> app_state" where
  "countEnter k s =
     (if k = Enter then
        (let newCount = enterPressCount s + 1
         in if newCount = 3
            then s\<lparr> enterPressTimeout := None, showTvCursor := True, enterPressCount := 0 \<rparr>
            else s\<lparr> enterPressCount := newCount, enterPressTimeout := Some 500 \<rparr>)
      else s)"

definition clickAt :: "dom \<Rightarrow> rat \<times> rat \<Rightarrow> effect list" where
  "clickAt d p =
     (case elementFromPoint d (fst p) (snd p) of
        Some (HTMLElementAt i) \<Rightarrow> [Click i]
      | _ \<Rightarrow> [])"

text \<open>
  \<^verbatim>\<open>handleKeyDown\<close>. The test \<^verbatim>\<open>if (showTvCursor)\<close> reads the value the callback closed
  over, that is the state before this key press, also when the first block has just
  called \<^verbatim>\<open>setShowTvCursor(true)\<close>. Every key press is taken to reach the callback of
  the latest render, so that it reads the state the previous key press or timer has left.
\<close>

definition handleKeyDown :: "dom \<Rightarrow> key \<Rightarrow> app_state \<Rightarrow> app_state \<times> effect list" where
  "handleKeyDown d k s =
     (let s1 = countEnter k s
      in if showTvCursor s then
           (if isArrow k then (s1\<lparr> showTvCursor := False \<rparr>, spatialNavigation d k)
            else if k = Enter then
              (s1\<lparr> clickEffect := True,
                   clickEffectTimeouts := clickEffectTimeouts s1 @ [400] \<rparr>,
               PreventDefault # clickAt d (cursorPosition s))
            else (s1, []))
         else (s1, spatialNavigation d k))"

subsection \<open>Timers\<close>

text \<open>
  \<open>advance ms\<close> lets \<open>ms\<close> milliseconds pass with no key press: a pending timer whose
  delay has elapsed runs its callback (\<^verbatim>\<open>setEnterPressCount(0)\<close>, \<^verbatim>\<open>setClickEffect(false)\<close>),
  the others come closer. A timer that is due at the moment of a key press runs before
  the handler.
\<close>

definition advance :: "nat \<Rightarrow> app_state \<Rightarrow> app_state" where
  "advance ms s =
     (let s1 = (case enterPressTimeout s of
                  None \<Rightarrow> s
                | Some t \<Rightarrow>
                    if t \<le> ms then s\<lparr> enterPressCount := 0, enterPressTimeout := None \<rparr>
                    else s\<lparr> enterPressTimeout := Some (t - ms) \<rparr>)
      in s1\<lparr> clickEffect := (if list_ex (\<lambda>t. t \<le> ms) (clickEffectTimeouts s1)
                               then False else clickEffect s1),
              clickEffectTimeouts :=
                map (\<lambda>t. t - ms) (filter (\<lambda>t. ms < t) (clickEffectTimeouts s1)) \<rparr>)"

definition app_init :: "rat \<times> rat \<Rightarrow> app_state" where
  "app_init center =
     \<lparr> enterPressCount = 0, showTvCursor = False, enterPressTimeout = None,
       cursorPosition = center, clickEffect = False, clickEffectTimeouts = [] \<rparr>"

text \<open>
  A sequence of \<^verbatim>\<open>Enter\<close> presses: the first one arrives in state \<open>s\<close>, each later one
  after the given number of milliseconds, with a document snapshot of its own.
\<close>

definition pressEnter :: "app_state \<Rightarrow> nat \<times> dom \<Rightarrow> app_state" where
  "pressEnter s ev = fst (handleKeyDown (snd ev) Enter (advance (fst ev) s))"

definition enterPresses :: "dom \<Rightarrow> (nat \<times> dom) list \<Rightarrow> app_state \<Rightarrow> app_state" where
  "enterPresses d evs s = foldl pressEnter (fst (handleKeyDown d Enter s)) evs"

subsection \<open>The reference algorithm of the navigator\<close>

text \<open>
  The navigator as the specification words it, with no use of the functions of the
  handler above. A focus target is visible when it is not hidden and has a non-zero
  size; the candidates are the focus targets of the scope that are visible and not
  disabled, in document order. \<open>dx\<close> and \<open>dy\<close> are the differences of the rectangle
  centres, candidate minus current. Then come the half-plane filter, the cost with the
  perpendicular displacement counted twice, and the first candidate in document order
  among those of minimal cost.
\<close>

definition visible :: "element \<Rightarrow> bool" where
  "visible el =
     (\<not> visibility_hidden el \<and> \<not> display_none el
      \<and> 0 < rect_width (bounding el) \<and> 0 < rect_height (bounding el))"

definition candidates_in :: "element list \<Rightarrow> element list" where
  "candidates_in scope = filter (\<lambda>el. focusable el \<and> visible el \<and> \<not> disabled el) scope"

definition delta_x :: "element \<Rightarrow> element \<Rightarrow> rat" where
  "delta_x cur c =
     (rect_left (bounding c) + rect_width (bounding c) / 2)
       - (rect_left (bounding cur) + rect_width (bounding cur) / 2)"

definition delta_y :: "element \<Rightarrow> element \<Rightarrow> rat" where
  "delta_y cur c =
     (rect_top (bounding c) + rect_height (bounding c) / 2)
       - (rect_top (bounding cur) + rect_height (bounding cur) / 2)"

definition half_plane :: "key \<Rightarrow> element \<Rightarrow> element \<Rightarrow> bool" where
  "half_plane k cur c =
     (case k of
        ArrowRight \<Rightarrow> delta_x cur c > 0
      | ArrowLeft \<Rightarrow> delta_x cur c < 0
      | ArrowDown \<Rightarrow> delta_y cur c > 0
      | ArrowUp \<Rightarrow> delta_y cur c < 0
      | _ \<Rightarrow> False)"

definition cost :: "key \<Rightarrow> element \<Rightarrow> element \<Rightarrow> rat" where
  "cost k cur c =
     (if k = ArrowRight \<or> k = ArrowLeft
      then 2 * \<bar>delta_y cur c\<bar> + \<bar>delta_x cur c\<bar>
      else 2 * \<bar>delta_x cur c\<bar> + \<bar>delta_y cur c\<bar>)"

definition survivors :: "key \<Rightarrow> element \<Rightarrow> element list \<Rightarrow> element list" where
  "survivors k cur cands =
     filter (\<lambda>c. el_id c \<noteq> el_id cur \<and> half_plane k cur c) cands"

definition first_of_min_cost :: "('a \<Rightarrow> rat) \<Rightarrow> 'a list \<Rightarrow> 'a option" where
  "first_of_min_cost f xs = find (\<lambda>c. list_all (\<lambda>c'. f c \<le> f c') xs) xs"

definition reference_select :: "key \<Rightarrow> element \<Rightarrow> element list \<Rightarrow> element option" where
  "reference_select k cur cands = first_of_min_cost (cost k cur) (survivors k cur cands)"

text \<open>
  The loop body once the candidate has passed the identity test and the half-plane test:
  keep the candidate when its distance is strictly below the minimum so far.
\<close>

definition keep_min :: "('a \<Rightarrow> rat) \<Rightarrow> 'a option \<times> rat option \<Rightarrow> 'a \<Rightarrow> 'a option \<times> rat option" where
  "keep_min f acc c = (if below_min (f c) (snd acc) then (Some c, Some (f c)) else acc)"

text \<open>
  The example of the specification: A at rect(100,100,50,50) has the focus, B is at
  rect(200,100,50,50) and C at rect(160,140,50,50); C precedes B in document order.
\<close>

definition box :: "nat \<Rightarrow> rat \<Rightarrow> rat \<Rightarrow> rat \<Rightarrow> rat \<Rightarrow> element" where
  "box i x y w h =
     \<lparr> el_id = i, focusable = True, disabled = False, visibility_hidden = False,
       display_none = False,
       bounding = \<lparr> rect_left = x, rect_top = y, rect_width = w, rect_height = h \<rparr> \<rparr>"

definition example_dom :: dom where
  "example_dom =
     \<lparr> activeElement = Some (box 0 100 100 50 50),
       modalElement = None,
       documentElements = [box 0 100 100 50 50, box 2 160 140 50 50, box 1 200 100 50 50],
       elementFromPoint = (\<lambda>x y. Some (HTMLElementAt 1)) \<rparr>"

text \<open>
  A document in which the candidates differ in what the filters read. A (element 0) at
  rect(100,100,50,50) has the focus. Elements 3 to 7 lie closest to the right of A, at
  x = 130, but are disabled, hidden, not displayed, of width zero, or without the class
  \<^verbatim>\<open>focusable\<close>. E (element 8) at rect(160,100,200,50) has its centre at (260,125),
  F (element 9) at rect(180,60,20,130) has its centre at (190,125): by the centres F is
  the nearer one (cost 65 against 135), by the left or top edges it would be E.
\<close>

definition mixed_dom :: dom where
  "mixed_dom =
     \<lparr> activeElement = Some (box 0 100 100 50 50),
       modalElement = None,
       documentElements =
         [box 0 100 100 50 50,
          (box 3 130 100 50 50)\<lparr> disabled := True \<rparr>,
          (box 4 130 100 50 50)\<lparr> visibility_hidden := True \<rparr>,
          (box 5 130 100 50 50)\<lparr> display_none := True \<rparr>,
          box 6 130 100 0 50,
          (box 7 130 100 50 50)\<lparr> focusable := False \<rparr>,
          box 8 160 100 200 50,
          box 9 180 60 20 130],
       elementFromPoint = (\<lambda>x y. None) \<rparr>"

text \<open>
  The state the shell is in after three \<^verbatim>\<open>Enter\<close> presses 100 ms apart, on the example
  document, with the cursor in the middle of a 1920 by 1080 window.
\<close>

definition armed_example :: app_state where
  "armed_example =
     enterPresses example_dom [(100, example_dom), (100, example_dom)] (app_init (960, 540))"

text \<open>
  The gaps between consecutive presses, as the specification words the gesture: somewhere
  in the sequence two consecutive gaps are both below 500 ms, that is three consecutive
  presses have no gap of 500 ms or more between them.
\<close>

fun quick_triple :: "nat list \<Rightarrow> bool" where
  "quick_triple (a # b # gs) = ((a < 500 \<and> b < 500) \<or> quick_triple (b # gs))"
| "quick_triple gs = False"

section \<open>The playback session (src/components/Player.tsx)\<close>

text \<open>
  The types \<^verbatim>\<open>StreamLink\<close>, \<^verbatim>\<open>SubtitleTrack\<close> and \<^verbatim>\<open>Movie\<close> are imported from
  \<^verbatim>\<open>../types\<close>; the records hold the fields the player reads (\<^verbatim>\<open>link.url\<close>,
  \<^verbatim>\<open>link.quality\<close>; \<^verbatim>\<open>sub.url\<close>, \<^verbatim>\<open>sub.language\<close>, \<^verbatim>\<open>sub.display\<close>;
  \<^verbatim>\<open>m.backdrop_path\<close>). An object URL is a fresh handle, written as a number.
\<close>

record StreamLink =
  link_url :: string
  quality :: string

record SubtitleTrack =
  sub_url :: string
  language :: string
  display :: string

record Movie =
  movie_id :: nat
  backdrop_path :: "string option"

record vtt_track =
  lang :: string
  vtt_url :: nat
  label :: string

text \<open>
  \<^verbatim>\<open>video.duration\<close> is \<^verbatim>\<open>NaN\<close> as long as no metadata is loaded, \<^verbatim>\<open>Infinity\<close> for an
  unbounded stream, and a number of seconds otherwise.
\<close>

datatype media_duration = NaN | Seconds rat | Unbounded

record video_element =
  currentTime :: rat
  duration :: media_duration
  paused :: bool
  readyState :: nat

text \<open>
  The props and context values the effects read. \<open>noStreamLinks\<close> is the text
  \<^verbatim>\<open>t('noStreamLinks')\<close>, \<open>hlsSupported\<close> is \<^verbatim>\<open>Hls.default.isSupported()\<close>.
\<close>

record props =
  initialStreamUrl :: "string option"
  initialTime :: "rat option"
  userLanguage :: string
  noStreamLinks :: string
  hlsSupported :: bool

text \<open>Calls of the callbacks \<^verbatim>\<open>onStreamFetchStateChange\<close>, \<^verbatim>\<open>onProviderSelected\<close>, \<^verbatim>\<open>setToast\<close>.\<close>

datatype callback = StreamFetchStateChange bool | ProviderSelected string | Toast string

text \<open>
  The state of one mounted \<^verbatim>\<open>VideoPlayer\<close>: its refs, its React state, what Effect 2
  has attached to the media element (\<open>hlsSource\<close>: the source and the saved time of the
  live \<^verbatim>\<open>Hls\<close> instance; \<open>loadeddataListeners\<close>: the saved times of the
  \<^verbatim>\<open>loadeddata\<close> listeners registered with \<^verbatim>\<open>once: true\<close> that have not run yet), and
  the calls made to the callbacks so far, oldest first.
\<close>

record player =
  fetchIdRef :: nat
  timeOnSwitchRef :: rat
  videoRef :: "video_element option"
  streamLinks :: "StreamLink list"
  activeStreamUrl :: "string option"
  activeQuality :: "string option"
  recommendations :: "Movie list"
  isBuffering :: bool
  subtitles :: "SubtitleTrack list"
  vttTracks :: "vtt_track list"
  activeSubtitleLang :: "string option"
  isOverlayVisible :: bool
  isRecsFocused :: bool
  hlsSource :: "(string \<times> rat) option"
  videoSrc :: "string option"
  loadeddataListeners :: "rat list"
  calls :: "callback list"

text \<open>JavaScript truthiness of a string that may be \<^verbatim>\<open>null\<close> or \<^verbatim>\<open>undefined\<close>.\<close>

definition truthy :: "string option \<Rightarrow> bool" where
  "truthy so = (case so of None \<Rightarrow> False | Some str \<Rightarrow> str \<noteq> [])"

text \<open>The \<^verbatim>\<open>useState\<close> initial values, with the media element mounted.\<close>

definition player_init :: "props \<Rightarrow> video_element \<Rightarrow> player" where
  "player_init p v =
     \<lparr> fetchIdRef = 0, timeOnSwitchRef = 0, videoRef = Some v, streamLinks = [],
       activeStreamUrl = (if truthy (initialStreamUrl p) then initialStreamUrl p else None),
       activeQuality = None, recommendations = [], isBuffering = True, subtitles = [],
       vttTracks = [], activeSubtitleLang = None, isOverlayVisible = True,
       isRecsFocused = False, hlsSource = None, videoSrc = None, loadeddataListeners = [],
       calls = [] \<rparr>"

subsection \<open>Effect 1: source resolution\<close>

text \<open>
  \<^verbatim>\<open>fetchData\<close> is an asynchronous function with two suspension points. Its three
  synchronous parts are three functions: from the start of the effect to the first
  \<^verbatim>\<open>await\<close>, from the settlement of the recommendations request to the second
  \<^verbatim>\<open>await\<close> or the end, and from the settlement of the stream request to the end. Each
  later part carries the \<^verbatim>\<open>fetchId\<close> its invocation drew and the props it closed over.
\<close>

datatype 'a settled = Fulfilled 'a | RejectedWith string

datatype fetch_stage = AwaitingStream | Finished

record stream_data =
  links :: "StreamLink list option"
  data_subtitles :: "SubtitleTrack list option"
  provider :: string

definition effect1 :: "props \<Rightarrow> player \<Rightarrow> nat \<times> player" where
  "effect1 p s =
     (let s0 = (if truthy (initialStreamUrl p)
                then s\<lparr> activeStreamUrl := initialStreamUrl p \<rparr> else s);
          fetchId = fetchIdRef s0 + 1
      in (fetchId,
          s0\<lparr> fetchIdRef := fetchId,
               calls := calls s0 @ [StreamFetchStateChange True],
               isBuffering := True,
               activeStreamUrl :=
                 (if \<not> truthy (initialStreamUrl p) then None else activeStreamUrl s0),
               subtitles := [],
               vttTracks := [] \<rparr>))"

text \<open>\<^verbatim>\<open>catch (error) { if (fetchIdRef.current === fetchId) setToast(...) }\<close>\<close>

definition catch_block :: "nat \<Rightarrow> string \<Rightarrow> player \<Rightarrow> player" where
  "catch_block fetchId message s =
     (if fetchIdRef s = fetchId then s\<lparr> calls := calls s @ [Toast message] \<rparr> else s)"

text \<open>\<^verbatim>\<open>finally { if (fetchIdRef.current === fetchId) onStreamFetchStateChange(false) }\<close>\<close>

definition finally_block :: "nat \<Rightarrow> player \<Rightarrow> player" where
  "finally_block fetchId s =
     (if fetchIdRef s = fetchId
      then s\<lparr> calls := calls s @ [StreamFetchStateChange False] \<rparr> else s)"

definition recsSettled ::
  "props \<Rightarrow> nat \<Rightarrow> Movie list settled \<Rightarrow> player \<Rightarrow> fetch_stage \<times> player" where
  "recsSettled p fetchId r s =
     (case r of
        RejectedWith message \<Rightarrow> (Finished, finally_block fetchId (catch_block fetchId message s))
      | Fulfilled results \<Rightarrow>
          (let s1 = s\<lparr> recommendations := filter (\<lambda>m. truthy (backdrop_path m)) results \<rparr>
           in if \<not> truthy (initialStreamUrl p) then (AwaitingStream, s1)
              else (Finished, finally_block fetchId s1)))"

definition streamSettled :: "props \<Rightarrow> nat \<Rightarrow> stream_data settled \<Rightarrow> player \<Rightarrow> player" where
  "streamSettled p fetchId r s =
     (case r of
        RejectedWith message \<Rightarrow> finally_block fetchId (catch_block fetchId message s)
      | Fulfilled data \<Rightarrow>
          if fetchIdRef s \<noteq> fetchId then finally_block fetchId s
          else
            (case links data of
               Some (initialLink # rest) \<Rightarrow>
                 finally_block fetchId
                   (s\<lparr> streamLinks := initialLink # rest,
                        activeStreamUrl := Some (link_url initialLink),
                        activeQuality := Some (quality initialLink),
                        subtitles := (case data_subtitles data of
                                        Some subs \<Rightarrow> subs | None \<Rightarrow> subtitles s),
                        calls := calls s @ [ProviderSelected (provider data)] \<rparr>)
             | _ \<Rightarrow> finally_block fetchId (catch_block fetchId (noStreamLinks p) s)))"

subsection \<open>Effect 2: attaching the source\<close>

fun starts_with :: "string \<Rightarrow> string \<Rightarrow> bool" where
  "starts_with str [] = True"
| "starts_with [] (c # cs) = False"
| "starts_with (x # xs) (c # cs) = (x = c \<and> starts_with xs cs)"

fun str_includes :: "string \<Rightarrow> string \<Rightarrow> bool" where
  "str_includes [] pat = starts_with [] pat"
| "str_includes (x # xs) pat = (starts_with (x # xs) pat \<or> str_includes xs pat)"

text \<open>The cleanup of Effect 2, \<^verbatim>\<open>hls.destroy()\<close>.\<close>

definition playCleanup :: "player \<Rightarrow> player" where
  "playCleanup s = s\<lparr> hlsSource := None \<rparr>"

definition playEffect :: "props \<Rightarrow> player \<Rightarrow> player" where
  "playEffect p s =
     (case videoRef s of
        None \<Rightarrow> s\<lparr> isBuffering := True \<rparr>
      | Some video \<Rightarrow>
          (case activeStreamUrl s of
             None \<Rightarrow> s\<lparr> isBuffering := True \<rparr>
           | Some u \<Rightarrow>
               if u = [] then s\<lparr> isBuffering := True \<rparr>
               else
                 (let savedTime = (if timeOnSwitchRef s > 0 then timeOnSwitchRef s
                                   else (case initialTime p of None \<Rightarrow> 0 | Some t \<Rightarrow> t));
                      s1 = s\<lparr> timeOnSwitchRef := 0 \<rparr>
                  in if str_includes u ''.m3u8'' \<and> hlsSupported p
                     then s1\<lparr> hlsSource := Some (u, savedTime) \<rparr>
                     else s1\<lparr> videoSrc := Some u,
                              loadeddataListeners := loadeddataListeners s1 @ [savedTime] \<rparr>)))"

text \<open>
  The two media events the attach waits for. \<^verbatim>\<open>MANIFEST_PARSED\<close> reaches the handler of
  the live \<^verbatim>\<open>Hls\<close> instance; \<^verbatim>\<open>loadeddata\<close> runs the pending once-listeners in the order
  of their registration.
\<close>

definition onManifestParsed :: "player \<Rightarrow> player" where
  "onManifestParsed s =
     (case hlsSource s of
        None \<Rightarrow> s
      | Some (u, savedTime) \<Rightarrow>
          s\<lparr> videoRef := map_option (\<lambda>v. v\<lparr> currentTime := savedTime \<rparr>) (videoRef s) \<rparr>)"

definition onLoadedData :: "player \<Rightarrow> player" where
  "onLoadedData s =
     s\<lparr> videoRef :=
          map_option (\<lambda>v. foldl (\<lambda>v savedTime. v\<lparr> currentTime := savedTime \<rparr>) v
                            (loadeddataListeners s)) (videoRef s),
        loadeddataListeners := [] \<rparr>"

subsection \<open>The quality effect\<close>

definition qualityEffect :: "player \<Rightarrow> player" where
  "qualityEffect s =
     (case videoRef s of
        None \<Rightarrow> s
      | Some video \<Rightarrow>
          if \<not> truthy (activeQuality s) \<or> streamLinks s = [] then s
          else
            (case find (\<lambda>link. Some (quality link) = activeQuality s) (streamLinks s) of
               None \<Rightarrow> s
             | Some newLink \<Rightarrow>
                 if Some (link_url newLink) \<noteq> activeStreamUrl s
                 then s\<lparr> timeOnSwitchRef := currentTime video,
                         activeStreamUrl := Some (link_url newLink) \<rparr>
                 else s))"

text \<open>
  \<^verbatim>\<open>onQualityChange={setActiveQuality}\<close> followed by what React runs next: nothing when
  the state does not change; otherwise the quality effect, and, when that has changed
  \<^verbatim>\<open>activeStreamUrl\<close>, the cleanup and the body of Effect 2 and the quality effect once
  more (both depend on \<^verbatim>\<open>activeStreamUrl\<close>, in this order of declaration).
\<close>

definition changeQuality :: "props \<Rightarrow> string \<Rightarrow> player \<Rightarrow> player" where
  "changeQuality p q s =
     (if activeQuality s = Some q then s
      else
        (let s1 = s\<lparr> activeQuality := Some q \<rparr>;
             s2 = qualityEffect s1
         in if activeStreamUrl s2 = activeStreamUrl s1 then s2
            else qualityEffect (playEffect p (playCleanup s2))))"

subsection \<open>Default caption language\<close>

definition defaultSubtitleEffect :: "props \<Rightarrow> player \<Rightarrow> player" where
  "defaultSubtitleEffect p s =
     (if userLanguage p = ''ar'' \<and> vttTracks s \<noteq> [] then
        (case find (\<lambda>track. lang track = ''ar'') (vttTracks s) of
           Some arabicTrack \<Rightarrow> s\<lparr> activeSubtitleLang := Some ''ar'' \<rparr>
         | None \<Rightarrow> s\<lparr> activeSubtitleLang := None \<rparr>)
      else s)"

subsection \<open>Effect 4 and the mount\<close>

text \<open>
  Effect 4 runs once, at the mount. It registers the listeners of the media element and
  copies its state into the React state; of these copies the model keeps
  \<^verbatim>\<open>setIsBuffering(video.readyState < 3 && !video.paused)\<close>.
\<close>

definition effect4 :: "player \<Rightarrow> player" where
  "effect4 s =
     (case videoRef s of
        None \<Rightarrow> s
      | Some video \<Rightarrow> s\<lparr> isBuffering := (readyState video < 3 \<and> \<not> paused video) \<rparr>)"

text \<open>
  The mount of the player: after the first render React runs the effects in the order
  of their declaration, Effect 1 (which starts \<^verbatim>\<open>fetchData\<close> with epoch 1), Effect 2, the
  quality effect, the default caption effect, Effect 4. (Effect 3 and the cue effect find
  no subtitles and change nothing of this state.) The writes of \<^verbatim>\<open>isBuffering\<close> are
  batched and the last one, that of Effect 4, is the one that stays.
\<close>

definition mount :: "props \<Rightarrow> video_element \<Rightarrow> player" where
  "mount p v =
     effect4 (defaultSubtitleEffect p (qualityEffect (playEffect p
       (snd (effect1 p (player_init p v))))))"

text \<open>
  The two completions of the invocation of \<^verbatim>\<open>fetchData\<close> that drew \<open>fetchId\<close>, with
  nothing in between: the recommendations request is fulfilled, then, when the function
  has gone on to it, the stream request is fulfilled.
\<close>

definition settle :: "props \<Rightarrow> nat \<Rightarrow> Movie list \<Rightarrow> stream_data \<Rightarrow> player \<Rightarrow> player" where
  "settle p fetchId recs data s =
     (let afterRecs = recsSettled p fetchId (Fulfilled recs) s
      in case fst afterRecs of
           AwaitingStream \<Rightarrow> streamSettled p fetchId (Fulfilled data) (snd afterRecs)
         | Finished \<Rightarrow> snd afterRecs)"

text \<open>
  The browser has loaded the attached medium, of \<open>d\<close> seconds: the element has a
  duration and data, and the event \<^verbatim>\<open>loadeddata\<close> is dispatched.
\<close>

definition mediaLoaded :: "rat \<Rightarrow> player \<Rightarrow> player" where
  "mediaLoaded d s =
     onLoadedData
       (s\<lparr> videoRef :=
            map_option (\<lambda>v. v\<lparr> duration := Seconds d, readyState := 4 \<rparr>) (videoRef s) \<rparr>)"

subsection \<open>Effect 3: converting the subtitles\<close>

text \<open>
  Every run of Effect 3 has its own variables \<^verbatim>\<open>active\<close> and \<^verbatim>\<open>createdUrls\<close>, shared by
  its asynchronous function \<^verbatim>\<open>processSubtitles\<close> and its cleanup. A run is a \<open>pass\<close>:
  \<open>remaining\<close> is the part of \<^verbatim>\<open>subtitles\<close> the loop has not finished, its head the
  descriptor being processed; \<open>stage\<close> says at which \<^verbatim>\<open>await\<close> the function is
  suspended. The text written into a blob is not modelled, only the allocation of its
  object URL.
\<close>

datatype pass_stage = AwaitFetch | AwaitText | Completed

record pass =
  active :: bool
  createdUrls :: "nat list"
  remaining :: "SubtitleTrack list"
  stage :: pass_stage
  newTracks :: "vtt_track list"

text \<open>
  \<open>passes\<close>: the runs of the effect so far, the last one being the run whose cleanup
  has not been called yet; \<open>trackState\<close>: the React state \<^verbatim>\<open>vttTracks\<close>;
  \<open>objectUrls\<close>: the object URLs created and not revoked; \<open>revoked\<close>: the calls of
  \<^verbatim>\<open>URL.revokeObjectURL\<close>, oldest first.
\<close>

record captions =
  passes :: "pass list"
  trackState :: "vtt_track list"
  objectUrls :: "nat list"
  nextObjectUrl :: nat
  revoked :: "nat list"

definition captions_init :: captions where
  "captions_init =
     \<lparr> passes = [], trackState = [], objectUrls = [], nextObjectUrl = 0, revoked = [] \<rparr>"

definition revokeObjectURL :: "captions \<Rightarrow> nat \<Rightarrow> captions" where
  "revokeObjectURL c u =
     c\<lparr> objectUrls := removeAll u (objectUrls c), revoked := revoked c @ [u] \<rparr>"

text \<open>
  The cleanup of the latest run:
  \<^verbatim>\<open>active = false; createdUrls.forEach(url => URL.revokeObjectURL(url))\<close>.
\<close>

definition cleanupLatest :: "captions \<Rightarrow> captions" where
  "cleanupLatest c =
     (if passes c = [] then c
      else
        (let k = length (passes c) - 1;
             latest = passes c ! k
         in foldl revokeObjectURL
              (c\<lparr> passes := (passes c)[k := latest\<lparr> active := False \<rparr>] \<rparr>)
              (createdUrls latest)))"

text \<open>
  A change of \<^verbatim>\<open>subtitles\<close>: React calls the cleanup of the previous run, then the
  effect, which starts \<^verbatim>\<open>processSubtitles\<close> (suspended at the first \<^verbatim>\<open>fetch\<close>) or
  calls \<^verbatim>\<open>setVttTracks([])\<close>.
\<close>

definition subtitlesChanged :: "SubtitleTrack list \<Rightarrow> captions \<Rightarrow> captions" where
  "subtitlesChanged subs c =
     (let c1 = cleanupLatest c
      in if length subs > 0
         then c1\<lparr> passes := passes c1 @
                   [\<lparr> active = True, createdUrls = [], remaining = subs,
                      stage = AwaitFetch, newTracks = [] \<rparr>] \<rparr>
         else c1\<lparr> passes := passes c1 @
                   [\<lparr> active = True, createdUrls = [], remaining = [],
                      stage = Completed, newTracks = [] \<rparr>],
                 trackState := [] \<rparr>)"

text \<open>
  The end of one iteration of \<^verbatim>\<open>for (const sub of subtitles)\<close> in run \<open>k\<close>: go on with
  the next descriptor, or leave the loop and run \<^verbatim>\<open>if (active) setVttTracks(newTracks)\<close>.
\<close>

definition nextIteration :: "nat \<Rightarrow> captions \<Rightarrow> captions" where
  "nextIteration k c =
     (let this = passes c ! k;
          rest = tl (remaining this)
      in if rest = []
         then c\<lparr> passes := (passes c)[k := this\<lparr> remaining := [], stage := Completed \<rparr>],
                 trackState := (if active this then newTracks this else trackState c) \<rparr>
         else c\<lparr> passes := (passes c)[k := this\<lparr> remaining := rest, stage := AwaitFetch \<rparr>] \<rparr>)"

datatype fetch_outcome = Response bool | NetworkError

datatype text_outcome = Body string | BodyError

text \<open>
  \<^verbatim>\<open>const res = await fetch(sub.url); if (!res.ok || !active) continue;\<close> in run \<open>k\<close>;
  a rejected promise is caught and logged, and the loop goes on.
\<close>

definition fetchSettled :: "nat \<Rightarrow> fetch_outcome \<Rightarrow> captions \<Rightarrow> captions" where
  "fetchSettled k outcome c =
     (if k < length (passes c) \<and> stage (passes c ! k) = AwaitFetch then
        (case outcome of
           NetworkError \<Rightarrow> nextIteration k c
         | Response ok \<Rightarrow>
             if \<not> ok \<or> \<not> active (passes c ! k) then nextIteration k c
             else c\<lparr> passes := (passes c)[k := (passes c ! k)\<lparr> stage := AwaitText \<rparr>] \<rparr>)
      else c)"

text \<open>
  \<^verbatim>\<open>const srtText = await res.text(); const vttUrl = processSrtToVtt(srtText);
  newTracks.push(...)\<close> in run \<open>k\<close>: \<^verbatim>\<open>processSrtToVtt\<close> creates the object URL and
  pushes it onto the \<^verbatim>\<open>createdUrls\<close> of its run.
\<close>

definition textSettled :: "nat \<Rightarrow> text_outcome \<Rightarrow> captions \<Rightarrow> captions" where
  "textSettled k outcome c =
     (if k < length (passes c) \<and> stage (passes c ! k) = AwaitText then
        (case outcome of
           BodyError \<Rightarrow> nextIteration k c
         | Body srtText \<Rightarrow>
             (case remaining (passes c ! k) of
                [] \<Rightarrow> c
              | sub # rest \<Rightarrow>
                  (let vttUrl = nextObjectUrl c;
                       this = passes c ! k;
                       this' = this\<lparr> createdUrls := createdUrls this @ [vttUrl],
                                     newTracks := newTracks this @
                                       [\<lparr> lang = language sub, vtt_url = vttUrl,
                                          label = display sub \<rparr>] \<rparr>
                   in nextIteration k
                        (c\<lparr> objectUrls := objectUrls c @ [vttUrl],
                            nextObjectUrl := vttUrl + 1,
                            passes := (passes c)[k := this'] \<rparr>))))
      else c)"

datatype caption_event =
    SubtitlesChanged "SubtitleTrack list"
  | FetchSettled nat fetch_outcome
  | TextSettled nat text_outcome
  | Unmount

fun caption_step :: "captions \<Rightarrow> caption_event \<Rightarrow> captions" where
  "caption_step c (SubtitlesChanged subs) = subtitlesChanged subs c"
| "caption_step c (FetchSettled k outcome) = fetchSettled k outcome c"
| "caption_step c (TextSettled k outcome) = textSettled k outcome c"
| "caption_step c Unmount = cleanupLatest c"

definition caption_run :: "caption_event list \<Rightarrow> captions" where
  "caption_run evs = foldl caption_step captions_init evs"

subsection \<open>The key handler of the overlay\<close>

text \<open>
  What the handler reads of the document: the focused element and whether it is an
  \<^verbatim>\<open>INPUT\<close>, the focusable elements of the info panel, the controls panel and the
  recommendations panel, and the progress bar (\<^verbatim>\<open>progressBarRef.current\<close>).
\<close>

record player_dom =
  focused :: "nat option"
  focusedIsInput :: bool
  infoFocusables :: "nat list"
  progressFocusable :: "nat option"
  controlsFocusables :: "nat list"
  recsFocusables :: "nat list"

datatype player_effect = KeyPreventDefault | KeyStopPropagation | MoveFocus nat | BlurFocused
  | TogglePlay

datatype js_error = TypeError

text \<open>\<^verbatim>\<open>xs.includes(active)\<close> for an \<^verbatim>\<open>active\<close> that may be \<^verbatim>\<open>null\<close>.\<close>

definition includesActive :: "nat list \<Rightarrow> nat option \<Rightarrow> bool" where
  "includesActive xs a = (case a of None \<Rightarrow> False | Some i \<Rightarrow> i \<in> set xs)"

fun indexOf :: "nat list \<Rightarrow> nat \<Rightarrow> nat" where
  "indexOf [] i = 0"
| "indexOf (x # xs) i = (if x = i then 0 else Suc (indexOf xs i))"

text \<open>\<^verbatim>\<open>xs[0]?.focus()\<close> and \<^verbatim>\<open>ref?.focus()\<close>.\<close>

definition focusFirst :: "nat list \<Rightarrow> player_effect list" where
  "focusFirst xs = (case xs of [] \<Rightarrow> [] | x # rest \<Rightarrow> [MoveFocus x])"

definition focusRef :: "nat option \<Rightarrow> player_effect list" where
  "focusRef r = (case r of None \<Rightarrow> [] | Some x \<Rightarrow> [MoveFocus x])"

text \<open>
  \<^verbatim>\<open>video.currentTime = Math.max(0, Math.min(video.duration, video.currentTime + offset))\<close>.
  With a \<^verbatim>\<open>NaN\<close> duration both \<^verbatim>\<open>Math.min\<close> and \<^verbatim>\<open>Math.max\<close> give \<^verbatim>\<open>NaN\<close>, and
  the assignment of a non-finite value to \<^verbatim>\<open>currentTime\<close> throws a \<^verbatim>\<open>TypeError\<close>.
\<close>

definition seek :: "rat \<Rightarrow> video_element \<Rightarrow> js_error + video_element" where
  "seek offset video =
     (case duration video of
        NaN \<Rightarrow> Inl TypeError
      | Seconds d \<Rightarrow> Inr (video\<lparr> currentTime := max 0 (min d (currentTime video + offset)) \<rparr>)
      | Unbounded \<Rightarrow> Inr (video\<lparr> currentTime := max 0 (currentTime video + offset) \<rparr>))"

definition seekRef ::
  "rat \<Rightarrow> player_effect list \<Rightarrow> player \<Rightarrow> js_error + player \<times> player_effect list" where
  "seekRef offset effs s =
     (case videoRef s of
        None \<Rightarrow> Inr (s, effs)
      | Some video \<Rightarrow>
          (case seek offset video of
             Inl err \<Rightarrow> Inl err
           | Inr video' \<Rightarrow> Inr (s\<lparr> videoRef := Some video' \<rparr>, effs)))"

text \<open>
  The moves inside a row: \<^verbatim>\<open>const currentIndex = xs.indexOf(active)\<close>, then the next
  element when there is one, or the previous element when there is one and \<open>fallback\<close>
  otherwise.
\<close>

definition moveForward :: "nat list \<Rightarrow> nat option \<Rightarrow> player_effect list" where
  "moveForward xs a =
     (case a of
        None \<Rightarrow> []
      | Some i \<Rightarrow>
          (let currentIndex = indexOf xs i
           in if currentIndex + 1 < length xs then [MoveFocus (xs ! (currentIndex + 1))]
              else []))"

definition moveBackward ::
  "nat list \<Rightarrow> nat option \<Rightarrow> player_effect list \<Rightarrow> player_effect list" where
  "moveBackward xs a fallback =
     (case a of
        None \<Rightarrow> []
      | Some i \<Rightarrow>
          (let currentIndex = indexOf xs i
           in if currentIndex > 0 then [MoveFocus (xs ! (currentIndex - 1))] else fallback))"

text \<open>
  The \<^verbatim>\<open>keydown\<close> handler that the player registers on the document while no panel is
  open. The space key is \<open>OtherKey '' ''\<close>.
\<close>

definition playerKeyDown ::
  "panels \<Rightarrow> player_dom \<Rightarrow> key \<Rightarrow> player \<Rightarrow> js_error + player \<times> player_effect list" where
  "playerKeyDown pn d k s =
     (if showSettingsPanel pn \<or> showSubtitlesPanel pn then Inr (s, [])
      else if \<not> isOverlayVisible s then
        (if k = ArrowDown
         then Inr (s\<lparr> isOverlayVisible := True \<rparr>, [KeyPreventDefault, KeyStopPropagation])
         else if k = Enter \<or> k = OtherKey '' ''
         then Inr (s, [KeyPreventDefault, KeyStopPropagation, TogglePlay])
         else Inr (s, []))
      else if \<not> (isArrow k \<or> k = Enter \<or> k = OtherKey '' '') \<or> focusedIsInput d
      then Inr (s, [])
      else if k = ArrowUp \<and> (includesActive (infoFocusables d) (focused d)
                               \<or> includesActive (controlsFocusables d) (focused d))
      then Inr (s\<lparr> isOverlayVisible := False \<rparr>,
                [KeyStopPropagation, KeyPreventDefault, BlurFocused])
      else
        (let effs = KeyStopPropagation # (if isArrow k then [KeyPreventDefault] else [])
         in case k of
              ArrowUp \<Rightarrow>
                if includesActive (recsFocusables d) (focused d)
                then Inr (s\<lparr> isRecsFocused := False \<rparr>, effs @ focusRef (progressFocusable d))
                else if focused d = progressFocusable d
                then Inr (s, effs @ focusFirst (infoFocusables d))
                else Inr (s, effs)
            | ArrowDown \<Rightarrow>
                if includesActive (infoFocusables d) (focused d)
                   \<or> includesActive (controlsFocusables d) (focused d)
                then Inr (s\<lparr> isRecsFocused := False \<rparr>, effs @ focusRef (progressFocusable d))
                else if focused d = progressFocusable d
                then Inr (s\<lparr> isRecsFocused := True \<rparr>, effs @ focusFirst (recsFocusables d))
                else Inr (s, effs)
            | ArrowRight \<Rightarrow>
                if includesActive (infoFocusables d) (focused d)
                then Inr (s, effs @ focusFirst (controlsFocusables d))
                else if includesActive (controlsFocusables d) (focused d)
                then Inr (s, effs @ moveForward (controlsFocusables d) (focused d))
                else if focused d = progressFocusable d
                then seekRef 5 effs s
                else if includesActive (recsFocusables d) (focused d)
                then Inr (s, effs @ moveForward (recsFocusables d) (focused d))
                else Inr (s, effs)
            | ArrowLeft \<Rightarrow>
                if includesActive (controlsFocusables d) (focused d)
                then Inr (s, effs @ moveBackward (controlsFocusables d) (focused d)
                                      (focusFirst (infoFocusables d)))
                else if focused d = progressFocusable d
                then seekRef (- 5) effs s
                else if includesActive (recsFocusables d) (focused d)
                then Inr (s, effs @ moveBackward (recsFocusables d) (focused d) [])
                else Inr (s, effs)
            | _ \<Rightarrow> Inr (s, effs)))"

subsection \<open>Example values\<close>

definition example_props :: props where
  "example_props =
     \<lparr> initialStreamUrl = None, initialTime = Some 3, userLanguage = ''en'',
       noStreamLinks = ''No stream links found'', hlsSupported = True \<rparr>"

definition example_video :: video_element where
  "example_video =
     \<lparr> currentTime = 0, duration = Seconds 3600, paused = True, readyState = 0 \<rparr>"

text \<open>
  The media element as the browser creates it: no source, no metadata, so the duration
  is \<^verbatim>\<open>NaN\<close>, the element is paused and \<^verbatim>\<open>readyState\<close> is 0.
\<close>

definition fresh_video :: video_element where
  "fresh_video = \<lparr> currentTime = 0, duration = NaN, paused = True, readyState = 0 \<rparr>"

definition example_movie :: Movie where
  "example_movie = \<lparr> movie_id = 7, backdrop_path = Some ''/b.jpg'' \<rparr>"

text \<open>Two resolution requests started one after the other, none of them settled.\<close>

definition two_requests :: player where
  "two_requests =
     snd (effect1 example_props (snd (effect1 example_props
            (player_init example_props example_video))))"

definition no_links :: stream_data where
  "no_links = \<lparr> links = Some [], data_subtitles = Some [], provider = ''p'' \<rparr>"

definition two_links :: stream_data where
  "two_links =
     \<lparr> links = Some [\<lparr> link_url = ''a.mp4'', quality = ''720p'' \<rparr>,
                      \<lparr> link_url = ''b.mp4'', quality = ''1080p'' \<rparr>],
       data_subtitles = Some [], provider = ''p'' \<rparr>"

text \<open>
  The first resolution of a mounted player returns no links; then a second resolution
  is triggered (the user selects another provider: Effect 1 runs again, no dependency of
  Effect 2 or of the quality effect has changed) and returns no links either.
\<close>

definition first_failed :: player where
  "first_failed = settle example_props 1 [] no_links (mount example_props fresh_video)"

definition second_failed :: player where
  "second_failed =
     settle example_props 2 [] no_links (snd (effect1 example_props first_failed))"

text \<open>
  The player after its first resolution has returned two links and Effect 2 has attached
  the first one; the media element has not reported \<^verbatim>\<open>loadeddata\<close> yet.
\<close>

definition attached_720p :: player where
  "attached_720p =
     playEffect example_props
       (settle example_props 1 [] two_links (mount example_props fresh_video))"

text \<open>
  Then the browser loads the medium, of 3600 s: playback starts at the initial time, 3 s.
\<close>

definition loaded_720p :: player where
  "loaded_720p = mediaLoaded 3600 attached_720p"

text \<open>The progress bar (element 5) has the focus; no panel is open.\<close>

definition progress_focused :: player_dom where
  "progress_focused =
     \<lparr> focused = Some 5, focusedIsInput = False, infoFocusables = [1],
       progressFocusable = Some 5, controlsFocusables = [2, 3, 4], recsFocusables = [6, 7] \<rparr>"

text \<open>Then the user presses \<^verbatim>\<open>ArrowLeft\<close> on the progress bar.\<close>

definition rewound_720p :: player where
  "rewound_720p =
     (case playerKeyDown panels_init progress_focused ArrowLeft loaded_720p of
        Inr r \<Rightarrow> fst r
      | Inl err \<Rightarrow> loaded_720p)"

definition english_track :: vtt_track where
  "english_track = \<lparr> lang = ''en'', vtt_url = 0, label = ''English'' \<rparr>"

definition example_sub :: SubtitleTrack where
  "example_sub = \<lparr> sub_url = ''https://subs/ar.srt'', language = ''ar'', display = ''Arabic'' \<rparr>"

text \<open>Playback of the first rendition has reached 42 s.\<close>

definition playing_at_42 :: player where
  "playing_at_42 =
     loaded_720p\<lparr> videoRef :=
       map_option (\<lambda>v. v\<lparr> currentTime := 42, paused := False \<rparr>) (videoRef loaded_720p) \<rparr>"

text \<open>
  The subtitle list changes while the body of the first descriptor is being read: the
  first run fetches its only descriptor, the list becomes empty (cleanup of the first run,
  second run), then the body arrives; at the end the player is unmounted.
\<close>

definition superseded_while_reading :: "caption_event list" where
  "superseded_while_reading =
     [SubtitlesChanged [example_sub], FetchSettled 0 (Response True), SubtitlesChanged [],
      TextSettled 0 (Body ''1 00:00:01,000 --> 00:00:02,000 a''), Unmount]"

text \<open>The same events with the body arriving before the list changes.\<close>

definition superseded_after_reading :: "caption_event list" where
  "superseded_after_reading =
     [SubtitlesChanged [example_sub], FetchSettled 0 (Response True),
      TextSettled 0 (Body ''1 00:00:01,000 --> 00:00:02,000 a''), SubtitlesChanged [], Unmount]"

section \<open>Panel exclusivity\<close>

lemma panel_step_exclusive: "\<not> both_open s \<Longrightarrow> \<not> both_open (panel_step s c)"
  by (cases c)
     (simp_all add: both_open_def onSettingsClick_def onSubtitlesClick_def
        closeSettingsPanel_def closeSubtitlesPanel_def)

lemma foldl_panel_step_exclusive:
  "\<not> both_open s \<Longrightarrow> \<not> both_open (foldl panel_step s cmds)"
  by (induction cmds arbitrary: s) (simp_all add: panel_step_exclusive)

text \<open>
  Claim C9. After any sequence of panel commands, starting from the initial state in which
  both panels are closed, the Settings panel and the Subtitles panel are never open
  together. The Settings button toggles Settings and, in the same step, leaves Subtitles
  closed; the Subtitles button toggles Subtitles and leaves Settings closed. In particular
  pressing the Settings button while Subtitles is open yields Settings open and Subtitles
  closed, and symmetrically.
\<close>

theorem panels_mutually_exclusive:
  "\<not> both_open (panel_run cmds)
   \<and> showSubtitlesPanel (onSettingsClick s) = False
   \<and> showSettingsPanel (onSettingsClick s) = (\<not> showSettingsPanel s)
   \<and> showSettingsPanel (onSubtitlesClick s) = False
   \<and> showSubtitlesPanel (onSubtitlesClick s) = (\<not> showSubtitlesPanel s)
   \<and> onSettingsClick \<lparr> showSettingsPanel = False, showSubtitlesPanel = True \<rparr>
       = \<lparr> showSettingsPanel = True, showSubtitlesPanel = False \<rparr>
   \<and> onSubtitlesClick \<lparr> showSettingsPanel = True, showSubtitlesPanel = False \<rparr>
       = \<lparr> showSettingsPanel = False, showSubtitlesPanel = True \<rparr>"
proof -
  have "\<not> both_open panels_init"
    by (simp add: both_open_def panels_init_def)
  then have "\<not> both_open (panel_run cmds)"
    unfolding panel_run_def by (rule foldl_panel_step_exclusive)
  then show ?thesis
    by (simp add: onSettingsClick_def onSubtitlesClick_def)
qed

section \<open>Spatial navigation\<close>

lemma nav_step_keep_min:
  "nav_step k cur acc c =
     (if el_id c \<noteq> el_id cur \<and> half_plane k cur c then keep_min (cost k cur) acc c else acc)"
proof -
  have pos: "a * 2 + d = 2 * a + \<bar>d\<bar>" if "d > 0" for a d :: rat
    using that by simp
  have neg: "a * 2 + \<bar>d\<bar> = 2 * a + \<bar>d\<bar>" for a d :: rat
    by simp
  show ?thesis
    by (cases k)
       (simp_all add: nav_step_def keep_min_def half_plane_def cost_def delta_x_def delta_y_def
          center_x_def center_y_def Let_def pos neg)
qed

lemma foldl_nav_step_survivors:
  "foldl (nav_step k cur) acc xs = foldl (keep_min (cost k cur)) acc (survivors k cur xs)"
  by (induction xs arbitrary: acc) (simp_all add: survivors_def nav_step_keep_min)

lemma min_pred_Cons:
  "list_all (\<lambda>c'. f c \<le> f c') (b # ys) = (f c \<le> f b \<and> list_all (\<lambda>c'. f c \<le> f c') ys)"
  by simp

lemma find_skip: "\<not> Q b \<Longrightarrow> find Q (b # zs) = find Q zs"
  by simp

lemma find_hit: "Q b \<Longrightarrow> find Q (b # zs) = Some b"
  by simp

lemma keep_min_from_best:
  fixes f :: "'a \<Rightarrow> rat"
  shows "fst (foldl (keep_min f) (Some b, Some (f b)) ys) = first_of_min_cost f (b # ys)"
proof (induction ys arbitrary: b)
  case Nil
  show ?case by (simp add: first_of_min_cost_def)
next
  case (Cons y ys)
  let ?P = "\<lambda>L c. list_all (\<lambda>c'. f c \<le> f c') L"
  show ?case
  proof (cases "f y < f b")
    case True
    have same: "?P (b # y # ys) c = ?P (y # ys) c" for c
      using True by auto
    have "\<not> ?P (b # y # ys) b"
      using True by simp
    then have "find (?P (b # y # ys)) (b # y # ys) = find (?P (b # y # ys)) (y # ys)"
      by (rule find_skip)
    also have "\<dots> = find (?P (y # ys)) (y # ys)"
      using same by presburger
    finally have "first_of_min_cost f (b # y # ys) = first_of_min_cost f (y # ys)"
      by (simp add: first_of_min_cost_def)
    moreover have "keep_min f (Some b, Some (f b)) y = (Some y, Some (f y))"
      using True by (simp add: keep_min_def below_min_def)
    ultimately show ?thesis
      using Cons.IH [of y] by simp
  next
    case False
    then have le: "f b \<le> f y" by simp
    have same: "?P (b # y # ys) c = ?P (b # ys) c" for c
      using le by auto
    have "find (?P (b # ys)) (b # y # ys) = find (?P (b # ys)) (b # ys)"
    proof (cases "?P (b # ys) b")
      case True
      then have "find (?P (b # ys)) (b # y # ys) = Some b"
        and "find (?P (b # ys)) (b # ys) = Some b"
        by (rule find_hit)+
      then show ?thesis by (simp only:)
    next
      case nb: False
      have "\<not> ?P (b # ys) y"
      proof
        assume py: "?P (b # ys) y"
        then have "f y = f b" using le by simp
        with py have "?P (b # ys) b" by simp
        with nb show False by simp
      qed
      then have "find (?P (b # ys)) (y # ys) = find (?P (b # ys)) ys"
        by (rule find_skip)
      moreover from nb have "find (?P (b # ys)) (b # y # ys) = find (?P (b # ys)) (y # ys)"
        by (rule find_skip)
      moreover from nb have "find (?P (b # ys)) (b # ys) = find (?P (b # ys)) ys"
        by (rule find_skip)
      ultimately show ?thesis by (simp only:)
    qed
    moreover have "find (?P (b # y # ys)) (b # y # ys) = find (?P (b # ys)) (b # y # ys)"
      using same by presburger
    ultimately have "first_of_min_cost f (b # y # ys) = first_of_min_cost f (b # ys)"
      by (simp add: first_of_min_cost_def)
    moreover have "keep_min f (Some b, Some (f b)) y = (Some b, Some (f b))"
      using False by (simp add: keep_min_def below_min_def)
    ultimately show ?thesis
      using Cons.IH [of b] by simp
  qed
qed

lemma keep_min_first_of_min_cost:
  fixes f :: "'a \<Rightarrow> rat"
  shows "fst (foldl (keep_min f) (None, None) ys) = first_of_min_cost f ys"
proof (cases ys)
  case Nil
  then show ?thesis by (simp add: first_of_min_cost_def)
next
  case (Cons y ys')
  have "keep_min f (None, None) y = (Some y, Some (f y))"
    by (simp add: keep_min_def below_min_def)
  then show ?thesis
    using Cons keep_min_from_best [of f y ys'] by simp
qed

lemma nav_loop_reference:
  "fst (foldl (nav_step k cur) (None, None) xs) = reference_select k cur xs"
  by (simp add: foldl_nav_step_survivors keep_min_first_of_min_cost reference_select_def)

lemma first_of_min_cost_nonempty:
  fixes f :: "'a \<Rightarrow> rat"
  shows "xs \<noteq> [] \<Longrightarrow> \<exists>c. first_of_min_cost f xs = Some c"
proof -
  assume "xs \<noteq> []"
  then obtain y ys where "xs = y # ys"
    by (cases xs) auto
  moreover have "fst (foldl (keep_min f) (Some y, Some (f y)) ys) \<noteq> None"
    by (induction ys arbitrary: y) (simp_all add: keep_min_def)
  ultimately show ?thesis
    using keep_min_from_best [of f y ys] by auto
qed

text \<open>
  The elements the loop runs over are the candidates of the specification: the focus
  targets of the navigation scope that are visible and not disabled.
\<close>

lemma focusables_candidates:
  "focusables d =
     candidates_in (case modalElement d of Some m \<Rightarrow> m | None \<Rightarrow> documentElements d)"
proof -
  have "filter P (filter Q xs) = filter (\<lambda>x. Q x \<and> P x) xs" for P Q and xs :: "element list"
    by (induction xs) simp_all
  then have "focusables d = filter (\<lambda>el. (focusable el \<and> \<not> disabled el) \<and> visible el)
                              (navigationScope d)"
    by (simp add: focusables_def visible_def)
  also have "\<dots> = candidates_in (navigationScope d)"
    unfolding candidates_in_def by (rule filter_cong) auto
  finally show ?thesis
    by (simp add: navigationScope_def)
qed

text \<open>
  Claim C2. For an arrow key pressed while the focused element is a focus target, take
  the candidates of the scope (the modal content when a modal is open, the document
  otherwise): its focus targets that are visible (not hidden, not undisplayed, of
  non-zero size) and not disabled, in document order. The handler focuses and scrolls
  to exactly the candidate the reference algorithm selects: among the candidates other
  than the current element that pass the half-plane test on the differences of the
  rectangle centres, the first one in document order whose cost (twice the
  perpendicular displacement plus the absolute displacement along the axis of travel)
  is minimal. When no candidate passes the half-plane test, the handler focuses nothing.
\<close>

theorem navigator_selects_reference:
  assumes "isArrow k" and "activeElement d = Some cur" and "focusable cur"
    and "cands =
           candidates_in (case modalElement d of Some m \<Rightarrow> m | None \<Rightarrow> documentElements d)"
  shows "snd (handleKeyDown d k s) =
           (case reference_select k cur cands of
              None \<Rightarrow> [PreventDefault]
            | Some c \<Rightarrow> [PreventDefault, Focus (el_id c), ScrollIntoView (el_id c)])
         \<and> (if survivors k cur cands = []
            then snd (handleKeyDown d k s) = [PreventDefault]
            else \<exists>c. c \<in> set (survivors k cur cands)
                   \<and> list_all (\<lambda>c'. cost k cur c \<le> cost k cur c') (survivors k cur cands)
                   \<and> snd (handleKeyDown d k s) =
                       [PreventDefault, Focus (el_id c), ScrollIntoView (el_id c)])"
proof -
  let ?ys = "survivors k cur cands"
  have cands: "focusables d = cands"
    using assms(4) by (simp add: focusables_candidates)
  have eff: "snd (handleKeyDown d k s) =
               (case reference_select k cur cands of
                  None \<Rightarrow> [PreventDefault]
                | Some c \<Rightarrow> [PreventDefault, Focus (el_id c), ScrollIntoView (el_id c)])"
    using assms(1-3)
    by (simp add: handleKeyDown_def spatialNavigation_def nav_loop_reference Let_def cands
          focus_and_scroll_def split: option.splits)
  show ?thesis
  proof (cases "?ys = []")
    case True
    then have "reference_select k cur cands = None"
      by (simp add: reference_select_def first_of_min_cost_def)
    with eff True show ?thesis
      by simp
  next
    case False
    then obtain b ys where ys: "?ys = b # ys"
      by (cases ?ys) auto
    obtain c where c: "reference_select k cur cands = Some c"
      using first_of_min_cost_nonempty [of "b # ys" "cost k cur"] ys
      by (auto simp: reference_select_def)
    then have "find (\<lambda>c. list_all (\<lambda>c'. cost k cur c \<le> cost k cur c') ?ys) ?ys = Some c"
      by (simp add: reference_select_def first_of_min_cost_def)
    then have "c \<in> set ?ys \<and> list_all (\<lambda>c'. cost k cur c \<le> cost k cur c') ?ys"
      by (auto simp: find_Some_iff)
    with eff c False show ?thesis
      by auto
  qed
qed

text \<open>
  Two documents. In the first, five elements lie closest to the right of A but are
  disabled, hidden, not displayed, of width zero, or no focus targets, and of the two
  candidates left the wide E has the nearer edges and the narrow F the nearer centre:
  \<^verbatim>\<open>ArrowRight\<close> selects F (element 9). The second is the example of the specification:
  \<^verbatim>\<open>ArrowRight\<close> from A selects B (element 1, cost 100) and not C (element 2, cost 140),
  although C comes first in document order.
\<close>

theorem navigator_selects_reference_witness:
  "isArrow ArrowRight
   \<and> activeElement mixed_dom = Some (box 0 100 100 50 50)
   \<and> activeElement example_dom = Some (box 0 100 100 50 50)
   \<and> focusable (box 0 100 100 50 50)
   \<and> candidates_in (case modalElement mixed_dom of Some m \<Rightarrow> m
                      | None \<Rightarrow> documentElements mixed_dom) =
       [box 0 100 100 50 50, box 8 160 100 200 50, box 9 180 60 20 130]
   \<and> snd (handleKeyDown mixed_dom ArrowRight (app_init (0, 0))) =
       [PreventDefault, Focus 9, ScrollIntoView 9]
   \<and> snd (handleKeyDown example_dom ArrowRight (app_init (0, 0))) =
       [PreventDefault, Focus 1, ScrollIntoView 1]"
proof -
  have a: "isArrow ArrowRight" by (simp add: isArrow_def)
  have m: "activeElement mixed_dom = Some (box 0 100 100 50 50)"
    by (simp add: mixed_dom_def)
  have e: "activeElement example_dom = Some (box 0 100 100 50 50)"
    by (simp add: example_dom_def)
  have f: "focusable (box 0 100 100 50 50)" by (simp add: box_def)
  have cm: "candidates_in (case modalElement mixed_dom of Some m \<Rightarrow> m
                            | None \<Rightarrow> documentElements mixed_dom) =
              [box 0 100 100 50 50, box 8 160 100 200 50, box 9 180 60 20 130]"
    by (simp add: mixed_dom_def candidates_in_def visible_def box_def)
  have ce: "candidates_in (case modalElement example_dom of Some m \<Rightarrow> m
                            | None \<Rightarrow> documentElements example_dom) =
              [box 0 100 100 50 50, box 2 160 140 50 50, box 1 200 100 50 50]"
    by (simp add: example_dom_def candidates_in_def visible_def box_def)
  have "snd (handleKeyDown mixed_dom ArrowRight (app_init (0, 0))) =
          [PreventDefault, Focus 9, ScrollIntoView 9]"
    using navigator_selects_reference [OF a m f cm [symmetric], of "app_init (0, 0)"]
    by (simp add: box_def reference_select_def first_of_min_cost_def survivors_def
          half_plane_def cost_def delta_x_def delta_y_def)
  moreover have "snd (handleKeyDown example_dom ArrowRight (app_init (0, 0))) =
          [PreventDefault, Focus 1, ScrollIntoView 1]"
    using navigator_selects_reference [OF a e f ce [symmetric], of "app_init (0, 0)"]
    by (simp add: box_def reference_select_def first_of_min_cost_def survivors_def
          half_plane_def cost_def delta_x_def delta_y_def)
  ultimately show ?thesis
    using a m e f cm by simp
qed

section \<open>The triple-Enter gesture\<close>

lemma countEnter_Enter:
  "showTvCursor (countEnter Enter s) = (showTvCursor s \<or> enterPressCount s = 2)"
  "enterPressCount (countEnter Enter s) = (if enterPressCount s = 2 then 0 else enterPressCount s + 1)"
  "enterPressTimeout (countEnter Enter s) = (if enterPressCount s = 2 then None else Some 500)"
  "cursorPosition (countEnter Enter s) = cursorPosition s"
  "clickEffect (countEnter Enter s) = clickEffect s"
  "clickEffectTimeouts (countEnter Enter s) = clickEffectTimeouts s"
  by (simp_all add: countEnter_def Let_def)

lemma handle_Enter_state:
  "showTvCursor (fst (handleKeyDown d Enter s)) = (showTvCursor s \<or> enterPressCount s = 2)"
  "enterPressCount (fst (handleKeyDown d Enter s)) =
     (if enterPressCount s = 2 then 0 else enterPressCount s + 1)"
  "enterPressTimeout (fst (handleKeyDown d Enter s)) =
     (if enterPressCount s = 2 then None else Some 500)"
  by (simp_all add: handleKeyDown_def Let_def isArrow_def countEnter_Enter)

lemma advance_fields:
  "showTvCursor (advance g s) = showTvCursor s"
  "enterPressCount (advance g s) =
     (case enterPressTimeout s of None \<Rightarrow> enterPressCount s
      | Some t \<Rightarrow> if t \<le> g then 0 else enterPressCount s)"
  "enterPressTimeout (advance g s) =
     (case enterPressTimeout s of None \<Rightarrow> None
      | Some t \<Rightarrow> if t \<le> g then None else Some (t - g))"
  by (simp_all add: advance_def Let_def split: option.splits)

lemma pressEnter_counting:
  assumes "\<not> showTvCursor s" and "enterPressTimeout s = Some 500"
  shows "showTvCursor (pressEnter s ev) = (enterPressCount s = 2 \<and> fst ev < 500)"
    and "enterPressCount (pressEnter s ev) =
           (if fst ev < 500 then (if enterPressCount s = 2 then 0 else enterPressCount s + 1) else 1)"
    and "enterPressTimeout (pressEnter s ev) =
           (if fst ev < 500 \<and> enterPressCount s = 2 then None else Some 500)"
  using assms by (auto simp: pressEnter_def handle_Enter_state advance_fields)

lemma armed_stays:
  "showTvCursor s \<Longrightarrow> showTvCursor (foldl pressEnter s evs)"
  by (induction evs arbitrary: s) (simp_all add: pressEnter_def handle_Enter_state advance_fields)

lemma run_from_counting:
  assumes "\<not> showTvCursor s" and "enterPressTimeout s = Some 500"
    and "enterPressCount s = 1 \<or> enterPressCount s = 2"
  shows "showTvCursor (foldl pressEnter s evs) =
           ((enterPressCount s = 2 \<and> evs \<noteq> [] \<and> fst (hd evs) < 500) \<or> quick_triple (map fst evs))"
  using assms
proof (induction evs arbitrary: s)
  case Nil
  then show ?case by simp
next
  case (Cons ev evs)
  let ?s' = "pressEnter s ev"
  note step = pressEnter_counting [OF Cons.prems(1,2), of ev]
  show ?case
  proof (cases "enterPressCount s = 2 \<and> fst ev < 500")
    case True
    then have "showTvCursor ?s'" using step(1) by simp
    then have "showTvCursor (foldl pressEnter ?s' evs)" by (rule armed_stays)
    with True show ?thesis by simp
  next
    case False
    then have na: "\<not> showTvCursor ?s'" using step(1) by simp
    have tm: "enterPressTimeout ?s' = Some 500" using step(3) False by auto
    have cnt: "enterPressCount ?s' = (if fst ev < 500 then 2 else 1)"
      using step(2) False Cons.prems(3) by auto
    then have "enterPressCount ?s' = 1 \<or> enterPressCount ?s' = 2" by simp
    from Cons.IH [OF na tm this]
    have "showTvCursor (foldl pressEnter ?s' evs) =
            ((fst ev < 500 \<and> evs \<noteq> [] \<and> fst (hd evs) < 500) \<or> quick_triple (map fst evs))"
      using cnt by simp
    moreover have "quick_triple (map fst (ev # evs)) =
            ((fst ev < 500 \<and> evs \<noteq> [] \<and> fst (hd evs) < 500) \<or> quick_triple (map fst evs))"
      by (cases evs) simp_all
    ultimately show ?thesis using False by auto
  qed
qed

lemma quick_triple_iff:
  "quick_triple gs = (\<exists>i. Suc i < length gs \<and> gs ! i < 500 \<and> gs ! Suc i < 500)"
proof (induction gs rule: quick_triple.induct)
  case (1 a b gs)
  have "(\<exists>i. Suc i < length (a # b # gs) \<and> (a # b # gs) ! i < 500 \<and> (a # b # gs) ! Suc i < 500)
        = ((a < 500 \<and> b < 500) \<or> (\<exists>i. Suc i < length (b # gs) \<and> (b # gs) ! i < 500 \<and> (b # gs) ! Suc i < 500))"
    (is "?L = (?A \<or> ?R)")
  proof
    assume ?L
    then obtain i where i: "Suc i < length (a # b # gs)" "(a # b # gs) ! i < 500"
      "(a # b # gs) ! Suc i < 500" by blast
    show "?A \<or> ?R"
    proof (cases i)
      case 0
      with i show ?thesis by simp
    next
      case (Suc j)
      with i have "Suc j < length (b # gs) \<and> (b # gs) ! j < 500 \<and> (b # gs) ! Suc j < 500"
        by simp
      then show ?thesis by blast
    qed
  next
    assume "?A \<or> ?R"
    then show ?L
    proof
      assume ?A
      then have "Suc 0 < length (a # b # gs) \<and> (a # b # gs) ! 0 < 500 \<and> (a # b # gs) ! Suc 0 < 500"
        by simp
      then show ?L by blast
    next
      assume ?R
      then obtain j where "Suc j < length (b # gs) \<and> (b # gs) ! j < 500 \<and> (b # gs) ! Suc j < 500"
        by blast
      then have "Suc (Suc j) < length (a # b # gs) \<and> (a # b # gs) ! Suc j < 500
                 \<and> (a # b # gs) ! Suc (Suc j) < 500"
        by simp
      then show ?L by blast
    qed
  qed
  with 1 show ?case by simp
qed simp_all

text \<open>
  Claim C6. For a sequence of \<^verbatim>\<open>Enter\<close> presses starting in the initial state, with
  arbitrary gaps (in milliseconds) between consecutive presses, the cursor is shown at the
  end exactly when somewhere in the sequence three consecutive presses are less than
  500 ms apart from one to the next. A press that is not the third of its run starts the
  500 ms timer, and when 500 ms or more pass before the next press the counter is back
  at 0.
\<close>

theorem triple_enter_arms_iff:
  "showTvCursor (enterPresses d evs (app_init c)) =
     (\<exists>i. Suc i < length evs \<and> fst (evs ! i) < 500 \<and> fst (evs ! Suc i) < 500)
   \<and> enterPressTimeout (fst (handleKeyDown d Enter s)) =
       (if enterPressCount s = 2 then None else Some 500)
   \<and> enterPressCount (advance g (fst (handleKeyDown d Enter s))) =
       (if enterPressCount s = 2 \<or> 500 \<le> g then 0 else enterPressCount s + 1)"
proof -
  let ?s = "fst (handleKeyDown d Enter (app_init c))"
  have "\<not> showTvCursor ?s" "enterPressTimeout ?s = Some 500" "enterPressCount ?s = 1"
    by (simp_all add: handle_Enter_state app_init_def)
  then have "showTvCursor (foldl pressEnter ?s evs) = quick_triple (map fst evs)"
    using run_from_counting [of ?s evs] by simp
  also have "\<dots> = (\<exists>i. Suc i < length evs \<and> fst (evs ! i) < 500 \<and> fst (evs ! Suc i) < 500)"
    unfolding quick_triple_iff
    by (rule iff_exI) (auto simp: nth_map Suc_lessD)
  finally have "showTvCursor (enterPresses d evs (app_init c)) =
     (\<exists>i. Suc i < length evs \<and> fst (evs ! i) < 500 \<and> fst (evs ! Suc i) < 500)"
    by (simp add: enterPresses_def)
  then show ?thesis
    by (simp add: handle_Enter_state advance_fields)
qed

text \<open>
  Three presses 100 ms apart show the cursor. Presses at 0, 100, 700 and 800 ms do not:
  the timer started by the second press has reset the counter before the third.
\<close>

theorem triple_enter_arms_iff_witness:
  "showTvCursor (enterPresses example_dom [(100, example_dom), (100, example_dom)]
                   (app_init (960, 540)))
   \<and> \<not> showTvCursor (enterPresses example_dom
                       [(100, example_dom), (600, example_dom), (100, example_dom)]
                       (app_init (960, 540)))"
proof -
  have "\<exists>i. Suc i < length [(100::nat, example_dom), (100, example_dom)]
           \<and> fst ([(100::nat, example_dom), (100, example_dom)] ! i) < 500
           \<and> fst ([(100::nat, example_dom), (100, example_dom)] ! Suc i) < 500"
    by (rule exI [of _ 0]) simp
  moreover have "\<not> (\<exists>i. Suc i < length [(100::nat, example_dom), (600, example_dom), (100, example_dom)]
           \<and> fst ([(100::nat, example_dom), (600, example_dom), (100, example_dom)] ! i) < 500
           \<and> fst ([(100::nat, example_dom), (600, example_dom), (100, example_dom)] ! Suc i) < 500)"
    by (auto simp: less_Suc_eq nth_Cons')
  ultimately show ?thesis
    using triple_enter_arms_iff
            [of example_dom "[(100, example_dom), (100, example_dom)]" "(960, 540)"]
          triple_enter_arms_iff
            [of example_dom "[(100, example_dom), (600, example_dom), (100, example_dom)]"
                "(960, 540)"]
    by blast
qed

section \<open>Enter while the cursor is shown\<close>

text \<open>
  Claim C5, as stated, fails: an \<^verbatim>\<open>Enter\<close> press that arrives while the cursor is shown
  is counted by the first block of the handler like any other. In the state reached by a
  triple press (cursor shown, counter 0, no timer pending) the next \<^verbatim>\<open>Enter\<close> leaves the
  counter at 1 and the 500 ms timer running.
\<close>

theorem armed_enter_counter_counterexample:
  "showTvCursor armed_example
   \<and> enterPressCount armed_example = 0
   \<and> enterPressTimeout armed_example = None
   \<and> enterPressCount (fst (handleKeyDown example_dom Enter armed_example)) = 1
   \<and> enterPressTimeout (fst (handleKeyDown example_dom Enter armed_example)) = Some 500"
  by (simp add: armed_example_def enterPresses_def pressEnter_def handle_Enter_state
        advance_fields app_init_def)

text \<open>
  Claim C5, amended. An \<^verbatim>\<open>Enter\<close> press that arrives while the cursor is shown prevents
  the default action, hit-tests at the stored cursor position and clicks the element found
  when it is an \<^verbatim>\<open>HTMLElement\<close>, and does nothing else to the document (no focus change,
  no scrolling); it sets the click effect and starts a 400 ms timer that clears it; the
  cursor stays shown. The same press is counted by the triple-press block: the counter
  goes up by one and the 500 ms timer is restarted, or, when this is the third counted
  press, the counter returns to 0 and no timer is left pending.
\<close>

theorem armed_enter_clicks_and_counts:
  assumes "showTvCursor s"
  shows "snd (handleKeyDown d Enter s) =
           PreventDefault #
             (case elementFromPoint d (fst (cursorPosition s)) (snd (cursorPosition s)) of
                Some (HTMLElementAt i) \<Rightarrow> [Click i]
              | _ \<Rightarrow> [])
         \<and> clickEffect (fst (handleKeyDown d Enter s))
         \<and> clickEffectTimeouts (fst (handleKeyDown d Enter s)) = clickEffectTimeouts s @ [400]
         \<and> \<not> clickEffect (advance 400 (fst (handleKeyDown d Enter s)))
         \<and> showTvCursor (fst (handleKeyDown d Enter s))
         \<and> cursorPosition (fst (handleKeyDown d Enter s)) = cursorPosition s
         \<and> enterPressCount (fst (handleKeyDown d Enter s)) =
             (if enterPressCount s = 2 then 0 else enterPressCount s + 1)
         \<and> enterPressTimeout (fst (handleKeyDown d Enter s)) =
             (if enterPressCount s = 2 then None else Some 500)"
proof -
  have st: "fst (handleKeyDown d Enter s) =
              (countEnter Enter s)\<lparr> clickEffect := True,
                 clickEffectTimeouts := clickEffectTimeouts s @ [400] \<rparr>"
    and eff: "snd (handleKeyDown d Enter s) = PreventDefault # clickAt d (cursorPosition s)"
    using assms
    by (simp_all add: handleKeyDown_def Let_def isArrow_def countEnter_Enter)
  have "\<not> clickEffect (advance 400 (fst (handleKeyDown d Enter s)))"
    unfolding st by (simp add: advance_def Let_def split: option.splits)
  with st eff assms show ?thesis
    by (simp add: countEnter_Enter clickAt_def)
qed

theorem armed_enter_clicks_and_counts_witness:
  "showTvCursor armed_example
   \<and> snd (handleKeyDown example_dom Enter armed_example) = [PreventDefault, Click 1]
   \<and> clickEffect (fst (handleKeyDown example_dom Enter armed_example))
   \<and> enterPressCount (fst (handleKeyDown example_dom Enter armed_example)) = 1"
proof -
  have armed: "showTvCursor armed_example"
    and zero: "enterPressCount armed_example = 0"
    by (simp_all add: armed_example_def enterPresses_def pressEnter_def handle_Enter_state
          advance_fields app_init_def)
  show ?thesis
    using armed zero armed_enter_clicks_and_counts [OF armed, of example_dom]
    by (simp add: example_dom_def)
qed

section \<open>Source resolution and the fetch epoch\<close>

text \<open>Every start of \<^verbatim>\<open>fetchData\<close> draws an epoch above all earlier ones.\<close>

lemma epoch_increases:
  "fst (effect1 p s) = fetchIdRef (snd (effect1 p s))
   \<and> fetchIdRef s < fetchIdRef (snd (effect1 p s))"
  by (simp add: effect1_def Let_def)

text \<open>
  A stream request that settles under a stale epoch, fulfilled or rejected, changes
  nothing, and so does a recommendations request that is rejected under a stale epoch.
\<close>

lemma stale_stream_discarded:
  "fetchIdRef s \<noteq> fetchId \<Longrightarrow> streamSettled p fetchId r s = s"
  by (simp add: streamSettled_def finally_block_def catch_block_def split: settled.splits)

lemma stale_recs_rejection_discarded:
  "fetchIdRef s \<noteq> fetchId \<Longrightarrow> recsSettled p fetchId (RejectedWith m) s = (Finished, s)"
  by (simp add: recsSettled_def finally_block_def catch_block_def)

text \<open>
  Claim C1 says that a completion under a stale epoch changes no session state,
  \<^verbatim>\<open>recommendations\<close> included. The code at the failing input: two requests are started
  one after the other (epochs 1 and 2), then the recommendations request of the first
  one is fulfilled. \<^verbatim>\<open>setRecommendations\<close> follows its \<^verbatim>\<open>await\<close> with no comparison of
  \<^verbatim>\<open>fetchIdRef.current\<close> and \<^verbatim>\<open>fetchId\<close>, so the stale result replaces the list.
\<close>

theorem stale_recommendations_applied:
  "fetchIdRef two_requests = 2
   \<and> recommendations two_requests = []
   \<and> recommendations (snd (recsSettled example_props 1 (Fulfilled [example_movie]) two_requests))
       = [example_movie]"
  by (simp add: two_requests_def example_props_def example_video_def example_movie_def
        effect1_def recsSettled_def player_init_def truthy_def Let_def)

text \<open>
  The zero-link completion of the current epoch: one notification, then the end of the
  fetch, and nothing else.
\<close>

lemma zero_links_step:
  assumes "fetchIdRef s = fetchId" and "links data = None \<or> links data = Some []"
  shows "streamSettled p fetchId (Fulfilled data) s =
           s\<lparr> calls := calls s @ [Toast (noStreamLinks p), StreamFetchStateChange False] \<rparr>"
  using assms by (auto simp: streamSettled_def catch_block_def finally_block_def)

text \<open>
  Claim C3, as stated, fails when the zero-link result answers a later trigger. The first
  resolution of a mounted player returns no links; the user selects another provider,
  which starts a second resolution and sets \<^verbatim>\<open>isBuffering\<close>; the second resolution
  returns no links either. The notification is raised and no source is active, but
  \<^verbatim>\<open>isBuffering\<close> is left set, not cleared.
\<close>

theorem zero_links_counterexample:
  "fetchIdRef second_failed = 2
   \<and> calls second_failed =
       [StreamFetchStateChange True, Toast ''No stream links found'',
        StreamFetchStateChange False,
        StreamFetchStateChange True, Toast ''No stream links found'',
        StreamFetchStateChange False]
   \<and> activeStreamUrl second_failed = None
   \<and> isBuffering second_failed"
  by (simp add: second_failed_def first_failed_def settle_def mount_def effect4_def
        defaultSubtitleEffect_def qualityEffect_def playEffect_def effect1_def
        recsSettled_def streamSettled_def catch_block_def finally_block_def player_init_def
        truthy_def Let_def example_props_def fresh_video_def no_links_def)

text \<open>
  Claim C3, amended. When a source resolution of the current epoch is fulfilled with no
  links (an empty or missing list), the completion raises exactly one notification, the
  text \<^verbatim>\<open>noStreamLinks\<close>, then reports the end of the fetch, and changes nothing else: it
  sets no active source, stores no links, and does not write \<^verbatim>\<open>isBuffering\<close>, which
  stays as it was. After the first resolution of a mounted player (no initial stream
  URL) these three calls are all the calls made, no source is active, no links are
  stored, nothing is attached to the media element, and \<^verbatim>\<open>isBuffering\<close> has the value
  Effect 4 gave it at the mount: cleared when the media element is paused.
\<close>

theorem zero_links_single_notification:
  assumes "fetchIdRef s = fetchId" and "links data = None \<or> links data = Some []"
    and "\<not> truthy (initialStreamUrl p)"
  shows "streamSettled p fetchId (Fulfilled data) s =
           s\<lparr> calls := calls s @ [Toast (noStreamLinks p), StreamFetchStateChange False] \<rparr>
         \<and> activeStreamUrl (streamSettled p fetchId (Fulfilled data) s) = activeStreamUrl s
         \<and> streamLinks (streamSettled p fetchId (Fulfilled data) s) = streamLinks s
         \<and> isBuffering (streamSettled p fetchId (Fulfilled data) s) = isBuffering s
         \<and> calls (settle p 1 recs data (mount p v)) =
             [StreamFetchStateChange True, Toast (noStreamLinks p), StreamFetchStateChange False]
         \<and> activeStreamUrl (settle p 1 recs data (mount p v)) = None
         \<and> streamLinks (settle p 1 recs data (mount p v)) = []
         \<and> hlsSource (settle p 1 recs data (mount p v)) = None
         \<and> videoSrc (settle p 1 recs data (mount p v)) = None
         \<and> loadeddataListeners (settle p 1 recs data (mount p v)) = []
         \<and> isBuffering (settle p 1 recs data (mount p v)) = (readyState v < 3 \<and> \<not> paused v)"
proof -
  have mounted: "mount p v =
          (player_init p v)\<lparr> fetchIdRef := 1, calls := [StreamFetchStateChange True],
             isBuffering := (readyState v < 3 \<and> \<not> paused v) \<rparr>"
    using assms(3)
    by (simp add: mount_def effect4_def defaultSubtitleEffect_def qualityEffect_def
          playEffect_def effect1_def player_init_def Let_def truthy_def)
  have settled: "settle p 1 recs data (mount p v) =
          (player_init p v)\<lparr> fetchIdRef := 1,
             calls := [StreamFetchStateChange True, Toast (noStreamLinks p),
                       StreamFetchStateChange False],
             isBuffering := (readyState v < 3 \<and> \<not> paused v),
             recommendations := filter (\<lambda>m. truthy (backdrop_path m)) recs \<rparr>"
    unfolding mounted using assms(2,3)
    by (simp add: settle_def recsSettled_def zero_links_step Let_def player_init_def)
  have fields: "calls (settle p 1 recs data (mount p v)) =
             [StreamFetchStateChange True, Toast (noStreamLinks p), StreamFetchStateChange False]"
    "activeStreamUrl (settle p 1 recs data (mount p v)) = None"
    "streamLinks (settle p 1 recs data (mount p v)) = []"
    "hlsSource (settle p 1 recs data (mount p v)) = None"
    "videoSrc (settle p 1 recs data (mount p v)) = None"
    "loadeddataListeners (settle p 1 recs data (mount p v)) = []"
    "isBuffering (settle p 1 recs data (mount p v)) = (readyState v < 3 \<and> \<not> paused v)"
    unfolding settled using assms(3) by (simp_all add: player_init_def)
  show ?thesis
    using fields by (simp add: zero_links_step [OF assms(1,2)])
qed

text \<open>
  The first resolution of the example player, mounted on a fresh, paused media element:
  one notification, no active source, \<^verbatim>\<open>isBuffering\<close> cleared.
\<close>

theorem zero_links_single_notification_witness:
  "fetchIdRef (mount example_props fresh_video) = 1
   \<and> (links no_links = None \<or> links no_links = Some [])
   \<and> \<not> truthy (initialStreamUrl example_props)
   \<and> calls first_failed =
       [StreamFetchStateChange True, Toast ''No stream links found'',
        StreamFetchStateChange False]
   \<and> activeStreamUrl first_failed = None
   \<and> \<not> isBuffering first_failed"
proof -
  have a: "fetchIdRef (mount example_props fresh_video) = 1"
    by (simp add: mount_def effect4_def defaultSubtitleEffect_def qualityEffect_def
          playEffect_def effect1_def player_init_def Let_def truthy_def example_props_def
          fresh_video_def)
  have b: "links no_links = None \<or> links no_links = Some []"
    by (simp add: no_links_def)
  have c: "\<not> truthy (initialStreamUrl example_props)"
    by (simp add: truthy_def example_props_def)
  show ?thesis
    using a b c zero_links_single_notification [OF a b c, of "[]" fresh_video]
    by (simp add: first_failed_def example_props_def fresh_video_def)
qed

section \<open>Default caption language\<close>

text \<open>
  Claim C4, as stated, fails: with the user locale \<^verbatim>\<open>en\<close> and a converted track for
  \<^verbatim>\<open>en\<close> in the batch, no caption language is selected.
\<close>

theorem default_caption_counterexample:
  "list_ex (\<lambda>track. lang track = userLanguage example_props) [english_track]
   \<and> activeSubtitleLang
       (defaultSubtitleEffect example_props
          ((player_init example_props example_video)\<lparr> vttTracks := [english_track] \<rparr>)) = None"
  by (simp add: defaultSubtitleEffect_def example_props_def example_video_def
        english_track_def player_init_def)

text \<open>
  Claim C4, amended. The default selection exists for the locale \<^verbatim>\<open>ar\<close> only. When the
  user locale is \<^verbatim>\<open>ar\<close> and the batch is not empty, the selected language becomes
  \<^verbatim>\<open>ar\<close> if the batch has a track for \<^verbatim>\<open>ar\<close> and none otherwise. For every other
  locale, and for an empty batch, the effect leaves the selected language as it is.
\<close>

theorem default_caption_arabic_only:
  "defaultSubtitleEffect p s =
     (if userLanguage p = ''ar'' \<and> vttTracks s \<noteq> []
      then s\<lparr> activeSubtitleLang :=
                (if list_ex (\<lambda>track. lang track = ''ar'') (vttTracks s) then Some ''ar'' else None) \<rparr>
      else s)"
  by (auto simp: defaultSubtitleEffect_def list_ex_iff find_None_iff split: option.splits)

section \<open>Quality switching\<close>

text \<open>
  Claim C7 says that the new rendition resumes at the position captured at the switch,
  within 0.5 s. The code at the failing input: playback of the 720p rendition has started
  at the initial time, 3 s, and the user has gone back to 0 with \<^verbatim>\<open>ArrowLeft\<close> on the
  progress bar. The switch to 1080p stores the current position, 0, in
  \<^verbatim>\<open>timeOnSwitchRef\<close>; Effect 2 tests \<^verbatim>\<open>timeOnSwitchRef.current > 0\<close>, takes the 0 for
  "nothing stored" and falls back to the initial time: the new rendition starts at 3 s,
  more than 0.5 s away from the position captured.
\<close>

theorem quality_switch_at_zero_loses_position:
  "map_option currentTime (videoRef rewound_720p) = Some 0
   \<and> timeOnSwitchRef (qualityEffect (rewound_720p\<lparr> activeQuality := Some ''1080p'' \<rparr>)) = 0
   \<and> map_option currentTime
        (videoRef (onLoadedData (changeQuality example_props ''1080p'' rewound_720p))) = Some 3
   \<and> \<not> \<bar>3 - 0 :: rat\<bar> \<le> 1 / 2"
  by (simp add: rewound_720p_def loaded_720p_def mediaLoaded_def attached_720p_def
        progress_focused_def panels_init_def two_links_def example_props_def fresh_video_def
        settle_def mount_def effect4_def defaultSubtitleEffect_def
        effect1_def recsSettled_def streamSettled_def catch_block_def
        finally_block_def player_init_def truthy_def Let_def
        playEffect_def changeQuality_def qualityEffect_def
        playCleanup_def onLoadedData_def playerKeyDown_def seekRef_def seek_def isArrow_def
        includesActive_def)

text \<open>
  The position after the switch is not the position before it.
\<close>

theorem quality_switch_at_zero_loses_position_witness:
  "map_option currentTime
     (videoRef (onLoadedData (changeQuality example_props ''1080p'' rewound_720p)))
   \<noteq> map_option currentTime (videoRef rewound_720p)"
proof -
  have before: "map_option currentTime (videoRef rewound_720p) = Some 0"
    and after: "map_option currentTime
        (videoRef (onLoadedData (changeQuality example_props ''1080p'' rewound_720p))) = Some 3"
    using quality_switch_at_zero_loses_position by blast+
  show ?thesis
    unfolding before after by simp
qed

text \<open>
  At every position above 0 the switch does what the claim says. Let the media element
  be mounted, its position be above 0, the links have non-empty URLs, and the quality
  selected be a non-empty label other than the active one. When no link has that label,
  or the first link with that label has the active URL, nothing changes but the recorded
  quality. Otherwise the quality effect stores the current position in
  \<^verbatim>\<open>timeOnSwitchRef\<close> and makes the link's URL the active one; Effect 2 then resets
  \<^verbatim>\<open>timeOnSwitchRef\<close> to 0 and attaches the new URL, and the media event it waits for
  (\<^verbatim>\<open>MANIFEST_PARSED\<close> for a manifest on a platform that supports it, \<^verbatim>\<open>loadeddata\<close>
  otherwise) sets the position to the one stored.
\<close>

lemma quality_switch_resumes_above_zero:
  assumes v: "videoRef s = Some v" and q: "q \<noteq> []" and new: "activeQuality s \<noteq> Some q"
    and urls: "list_all (\<lambda>link. link_url link \<noteq> []) (streamLinks s)"
    and pos: "0 < currentTime v"
  shows
    "case find (\<lambda>link. quality link = q) (streamLinks s) of
       None \<Rightarrow> changeQuality p q s = s\<lparr> activeQuality := Some q \<rparr>
     | Some newLink \<Rightarrow>
         if Some (link_url newLink) = activeStreamUrl s
         then changeQuality p q s = s\<lparr> activeQuality := Some q \<rparr>
         else
           (let resume = currentTime v;
                s' = changeQuality p q s
            in qualityEffect (s\<lparr> activeQuality := Some q \<rparr>) =
                 s\<lparr> activeQuality := Some q, timeOnSwitchRef := currentTime v,
                    activeStreamUrl := Some (link_url newLink) \<rparr>
               \<and> activeStreamUrl s' = Some (link_url newLink)
               \<and> activeQuality s' = Some q
               \<and> timeOnSwitchRef s' = 0
               \<and> (if str_includes (link_url newLink) ''.m3u8'' \<and> hlsSupported p
                   then hlsSource s' = Some (link_url newLink, resume)
                        \<and> map_option currentTime (videoRef (onManifestParsed s')) = Some resume
                   else videoSrc s' = Some (link_url newLink)
                        \<and> map_option currentTime (videoRef (onLoadedData s')) = Some resume))"
proof (cases "find (\<lambda>link. quality link = q) (streamLinks s)")
  case None
  then show ?thesis
    using v q new
    by (simp add: changeQuality_def qualityEffect_def truthy_def Let_def)
next
  case (Some newLink)
  then have mem: "newLink \<in> set (streamLinks s)" and ne: "streamLinks s \<noteq> []"
    by (auto simp: find_Some_iff)
  with urls have url: "link_url newLink \<noteq> []"
    by (simp add: list_all_iff)
  show ?thesis
  proof (cases "Some (link_url newLink) = activeStreamUrl s")
    case True
    then show ?thesis
      using v q new Some ne
      by (simp add: changeQuality_def qualityEffect_def truthy_def Let_def)
  next
    case False
    let ?s1 = "s\<lparr> activeQuality := Some q \<rparr>"
    let ?s2 = "s\<lparr> activeQuality := Some q, timeOnSwitchRef := currentTime v,
                    activeStreamUrl := Some (link_url newLink) \<rparr>"
    have qe: "qualityEffect ?s1 = ?s2"
      using v q Some ne False by (simp add: qualityEffect_def truthy_def)
    have stable: "qualityEffect s3 = s3"
      if "videoRef s3 = Some v" "activeQuality s3 = Some q" "streamLinks s3 = streamLinks s"
         "activeStreamUrl s3 = Some (link_url newLink)" for s3
      using that q Some ne by (simp add: qualityEffect_def truthy_def)
    have cq: "changeQuality p q s = playEffect p (playCleanup ?s2)"
    proof -
      have "changeQuality p q s = qualityEffect (playEffect p (playCleanup ?s2))"
        using new False qe by (simp add: changeQuality_def Let_def)
      moreover have "qualityEffect (playEffect p (playCleanup ?s2)) = playEffect p (playCleanup ?s2)"
        by (rule stable) (simp_all add: playEffect_def playCleanup_def v url Let_def)
      ultimately show ?thesis by simp
    qed
    show ?thesis
      using Some False qe v url pos
      by (simp add: cq playEffect_def playCleanup_def Let_def onManifestParsed_def onLoadedData_def)
  qed
qed

text \<open>
  The example of the specification: 720p is active at 42 s; switching to 1080p starts the
  new rendition at 42 s.
\<close>

lemma quality_switch_at_42:
  "activeQuality playing_at_42 = Some ''720p''
   \<and> map_option currentTime (videoRef playing_at_42) = Some 42
   \<and> activeStreamUrl (changeQuality example_props ''1080p'' playing_at_42) = Some ''b.mp4''
   \<and> timeOnSwitchRef (changeQuality example_props ''1080p'' playing_at_42) = 0
   \<and> map_option currentTime
        (videoRef (onLoadedData (changeQuality example_props ''1080p'' playing_at_42))) = Some 42"
  by (simp add: playing_at_42_def loaded_720p_def mediaLoaded_def attached_720p_def
        two_links_def example_props_def fresh_video_def
        settle_def mount_def effect4_def defaultSubtitleEffect_def
        effect1_def recsSettled_def streamSettled_def catch_block_def
        finally_block_def player_init_def truthy_def Let_def
        playEffect_def changeQuality_def qualityEffect_def playCleanup_def onLoadedData_def)

section \<open>Transient caption resources\<close>

text \<open>
  When the body of a descriptor arrives before the subtitle list changes, the cleanup of
  the run revokes the object URL created for it.
\<close>

lemma caption_url_revoked_in_order:
  "objectUrls (caption_run superseded_after_reading) = []
   \<and> revoked (caption_run superseded_after_reading) = [0]"
  by (simp add: superseded_after_reading_def caption_run_def captions_init_def
        subtitlesChanged_def cleanupLatest_def fetchSettled_def textSettled_def
        nextIteration_def revokeObjectURL_def Let_def example_sub_def)

text \<open>
  Claim C8 says that every object URL created by a processing pass is revoked, so that
  the URLs allocated never outnumber the latest batch. The code at the failing input: the
  subtitle list changes while the body of a descriptor of the previous run is being read.
  The run tests \<^verbatim>\<open>active\<close> before \<^verbatim>\<open>await res.text()\<close> and not after it, so it
  creates its object URL after its cleanup has run. Nothing revokes that URL, neither the
  later cleanups nor the unmount: at the end one URL is allocated, no URL has been
  revoked, and the batch shown is empty.
\<close>

theorem caption_url_leaked:
  "objectUrls (caption_run superseded_while_reading) = [0]
   \<and> revoked (caption_run superseded_while_reading) = []
   \<and> trackState (caption_run superseded_while_reading) = []"
  by (simp add: superseded_while_reading_def caption_run_def captions_init_def
        subtitlesChanged_def cleanupLatest_def fetchSettled_def textSettled_def
        nextIteration_def revokeObjectURL_def Let_def example_sub_def)

section \<open>Seeking from the progress bar\<close>

lemma seek_never_negative:
  "seek offset video = Inr video' \<Longrightarrow> 0 \<le> currentTime video'"
  by (auto simp: seek_def split: media_duration.splits)




end
